theory Spec2Isabelle
  imports Complex_Main "HOL-Library.Multiset" "HOL-Library.Product_Lexorder"
begin

section \<open>Python values\<close>

text \<open>
  A Python \<open>str\<close> is a list of characters; a \<^typ>\<open>char\<close> stands for a code point below
  256. A Python \<open>float\<close> is modelled by a real number: rounding, infinities and NaN are
  outside the model. \<open>None\<close> is \<^term>\<open>None\<close>.
\<close>

definition py_isspace :: "char \<Rightarrow> bool" where
  \<comment> \<open>\<open>str.isspace\<close> on one code point below 256: TAB, LF, VT, FF, CR, FS, GS, RS, US,
      SPACE, NEL and NBSP.\<close>
  "py_isspace c = (of_char c \<in> {9, 10, 11, 12, 13, 28, 29, 30, 31, 32, 133, 160 :: nat})"

definition strip :: "string \<Rightarrow> string" where
  \<comment> \<open>\<open>s.strip()\<close>: leading and trailing whitespace removed.\<close>
  "strip s = rev (dropWhile py_isspace (rev (dropWhile py_isspace s)))"

definition or_empty :: "string option \<Rightarrow> string" where
  \<comment> \<open>\<open>(v or "")\<close>: \<open>None\<close> and the empty string both give the empty string.\<close>
  "or_empty v = (case v of None \<Rightarrow> [] | Some s \<Rightarrow> (if s = [] then [] else s))"

definition or_zero :: "real \<Rightarrow> real" where
  \<comment> \<open>\<open>float(x or 0.0)\<close> on a float \<open>x\<close>.\<close>
  "or_zero x = (if x = 0 then 0 else x)"

fun show_nat :: "nat \<Rightarrow> string" where
  "show_nat n =
     (if n < 10 then [''0123456789'' ! n]
      else show_nat (n div 10) @ [''0123456789'' ! (n mod 10)])"

definition zfill :: "nat \<Rightarrow> string \<Rightarrow> string" where
  "zfill w s = replicate (w - length s) (CHR ''0'') @ s"

text \<open>A \<open>datetime.date\<close> is the triple (year, month, day); the lexicographic order of
  triples is the order of dates.\<close>

type_synonym date = "nat \<times> nat \<times> nat"

definition year :: "date \<Rightarrow> nat" where
  "year d = fst d"

definition month :: "date \<Rightarrow> nat" where
  "month d = fst (snd d)"

definition day :: "date \<Rightarrow> nat" where
  "day d = snd (snd d)"

definition strftime_ymd :: "date \<Rightarrow> string" where
  \<comment> \<open>\<open>d.strftime("%Y-%m-%d")\<close>\<close>
  "strftime_ymd d =
     zfill 4 (show_nat (year d)) @ ''-'' @ zfill 2 (show_nat (month d)) @ ''-'' @
     zfill 2 (show_nat (day d))"


section \<open>Models (erp\_app.py)\<close>

text \<open>
  The four tables of the database. The primary key \<open>id\<close> of each model is named
  \<open>customer_pk\<close>, \<open>item_pk\<close> and \<open>mov_id\<close> here. \<open>Inward\<close> and \<open>Outward\<close> share the
  columns of \<open>movement\<close>. Columns that a form field read with \<open>request.form.get\<close> fills
  are optional strings (\<open>None\<close> when the field is absent); the numeric columns are
  always written with a float by the routes.
\<close>

record customer =
  customer_pk :: int
  customer_name :: string
  gst_no :: "string option"
  address :: "string option"
  mobile :: "string option"
  email :: "string option"

record item =
  item_pk :: int
  item_name :: string
  hsn_code :: "string option"
  material :: "string option"

record movement =
  mov_id :: int
  entry_date :: date
  customer_id :: int
  item_id :: int
  dc_no_cust :: "string option"
  qty :: real

record inward = movement +
  rate :: real
  amt :: real

record outward = movement +
  dc_unique_no_noncust :: "string option"


section \<open>Monthly Excel files\<close>

text \<open>
  A cell holds a string, a number or nothing; a row is the dictionary the routes build,
  in the order of its keys; a sheet is the list of its rows and a workbook maps sheet
  names to sheets. Reading a sheet back gives the rows that were written.
\<close>

datatype cell = Str string | Num real | Blank

type_synonym xrow = "(string \<times> cell) list"

type_synonym workbook = "string \<rightharpoonup> xrow list"

text \<open>The state of the application: the database, the global \<open>EXPORT_DIR\<close> and the
  files of the export folder (a path that is not mapped does not exist).\<close>

record state =
  customer_table :: "customer list"
  item_table :: "item list"
  inward_table :: "inward list"
  outward_table :: "outward list"
  EXPORT_DIR :: string
  files :: "string \<rightharpoonup> workbook"


section \<open>The overall view: filters, ordering and DC reconciliation\<close>

definition get_customer :: "state \<Rightarrow> int \<Rightarrow> customer option" where
  \<comment> \<open>\<open>Customer.query.get(id)\<close>\<close>
  "get_customer st i = find (\<lambda>c. customer_pk c = i) (customer_table st)"

definition get_item :: "state \<Rightarrow> int \<Rightarrow> item option" where
  \<comment> \<open>\<open>Item.query.get(id)\<close>\<close>
  "get_item st i = find (\<lambda>it. item_pk it = i) (item_table st)"

definition filter_by :: "int option \<Rightarrow> int option \<Rightarrow>
    'a movement_scheme list \<Rightarrow> 'a movement_scheme list" where
  \<comment> \<open>The two \<open>if cust_filter:\<close> / \<open>if item_filter:\<close> blocks of \<open>overall\<close>, on one table.
      The arguments are what \<open>request.args.get(..., type=int)\<close> returned: \<open>None\<close> when
      the parameter is absent or not an integer. A filter is applied when its value is
      truthy.\<close>
  "filter_by cust_filter item_filter tbl =
     (let q1 = (case cust_filter of
                  None \<Rightarrow> tbl
                | Some c \<Rightarrow> if c \<noteq> 0 then filter (\<lambda>r. customer_id r = c) tbl else tbl);
          q2 = (case item_filter of
                  None \<Rightarrow> q1
                | Some i \<Rightarrow> if i \<noteq> 0 then filter (\<lambda>r. item_id r = i) q1 else q1)
      in q2)"

definition order_by_entry_date_desc ::
    "'a movement_scheme list \<Rightarrow> 'a movement_scheme list \<Rightarrow> bool" where
  \<comment> \<open>\<open>q.order_by(entry_date.desc()).all()\<close>: \<open>res\<close> is a result of the query over the
      rows \<open>rows\<close> when it holds the same rows, latest entry date first. SQL leaves the
      order of rows with equal sort keys to the engine, so a query can have several
      results.\<close>
  "order_by_entry_date_desc rows res =
     (mset res = mset rows \<and> sorted_wrt (\<lambda>a b. entry_date b \<le> entry_date a) res)"

definition dc_key :: "'a movement_scheme \<Rightarrow> string" where
  \<comment> \<open>\<open>key = (inv.dc_no_cust or "").strip()\<close>\<close>
  "dc_key r = strip (or_empty (dc_no_cust r))"

text \<open>The values of \<open>dc_map\<close>: the dictionary \<open>{"inward": ..., "outward": ...}\<close>.\<close>

record dc_totals =
  dc_inward :: real
  dc_outward :: real

type_synonym dc_map = "string \<rightharpoonup> dc_totals"

definition setdefault :: "dc_map \<Rightarrow> string \<Rightarrow> dc_totals" where
  \<comment> \<open>The entry \<open>dc_map.setdefault(key, {"inward": 0.0, "outward": 0.0})\<close> returns.\<close>
  "setdefault m key =
     (case m key of None \<Rightarrow> \<lparr>dc_inward = 0, dc_outward = 0\<rparr> | Some e \<Rightarrow> e)"

definition add_inward :: "dc_map \<Rightarrow> inward \<Rightarrow> dc_map" where
  \<comment> \<open>One iteration of \<open>for inv in Inward.query.all()\<close>.\<close>
  "add_inward m inw =
     (let key = dc_key inw in
      if key = [] then m
      else (let e = setdefault m key
            in m(key \<mapsto> e\<lparr>dc_inward := dc_inward e + or_zero (qty inw)\<rparr>)))"

definition add_outward :: "dc_map \<Rightarrow> outward \<Rightarrow> dc_map" where
  \<comment> \<open>One iteration of \<open>for out in Outward.query.all()\<close>.\<close>
  "add_outward m out =
     (let key = dc_key out in
      if key = [] then m
      else (let e = setdefault m key
            in m(key \<mapsto> e\<lparr>dc_outward := dc_outward e + or_zero (qty out)\<rparr>)))"

definition build_dc_map :: "inward list \<Rightarrow> outward list \<Rightarrow> dc_map" where
  \<comment> \<open>The two loops that fill \<open>dc_map\<close>, over the rows of the two whole tables.\<close>
  "build_dc_map all_inward all_outward =
     foldl add_outward (foldl add_inward Map.empty all_inward) all_outward"

record overall_row =
  row_date :: string
  row_desc :: string
  row_customer :: string
  row_item :: string
  row_hsn :: "string option"
  row_dc_no_cust :: string
  qty_dispatch :: real
  pending_qty :: real

definition overall_row_of :: "state \<Rightarrow> dc_map \<Rightarrow> inward \<Rightarrow> overall_row" where
  \<comment> \<open>The body of \<open>for inv in inwards\<close>.\<close>
  "overall_row_of st m inw =
     (let cust = get_customer st (customer_id inw);
          it = get_item st (item_id inw);
          key = dc_key inw;
          dispatched = (case m key of None \<Rightarrow> 0 | Some e \<Rightarrow> dc_outward e);
          inward_total = (case m key of None \<Rightarrow> or_zero (qty inw) | Some e \<Rightarrow> dc_inward e);
          pending = inward_total - dispatched
      in \<lparr>row_date = strftime_ymd (entry_date inw),
          row_desc = [],
          row_customer = (case cust of None \<Rightarrow> [] | Some c \<Rightarrow> customer_name c),
          row_item = (case it of None \<Rightarrow> [] | Some i \<Rightarrow> item_name i),
          row_hsn = (case it of None \<Rightarrow> Some [] | Some i \<Rightarrow> hsn_code i),
          row_dc_no_cust = key,
          qty_dispatch = dispatched,
          pending_qty = pending\<rparr>)"

definition overall_rows :: "state \<Rightarrow> inward list \<Rightarrow> overall_row list" where
  \<comment> \<open>\<open>rows\<close> of \<open>overall\<close>, for the result \<open>inwards\<close> of the filtered query. \<open>dc_map\<close> is
      built from \<open>Inward.query.all()\<close> and \<open>Outward.query.all()\<close>; a sum of reals does not
      depend on the order in which the engine returns the rows, so the tables are read
      in the order of the state.\<close>
  "overall_rows st inwards =
     (let m = build_dc_map (inward_table st) (outward_table st)
      in map (overall_row_of st m) inwards)"

definition overall :: "state \<Rightarrow> int option \<Rightarrow> int option \<Rightarrow>
    inward list \<Rightarrow> outward list \<Rightarrow> overall_row list \<Rightarrow> bool" where
  \<comment> \<open>\<open>overall()\<close>: the results \<open>inwards\<close> and \<open>outwards\<close> of the two filtered queries and
      the rows handed to the template.\<close>
  "overall st cust_filter item_filter inwards outwards rows =
     (order_by_entry_date_desc (filter_by cust_filter item_filter (inward_table st)) inwards \<and>
      order_by_entry_date_desc (filter_by cust_filter item_filter (outward_table st)) outwards \<and>
      rows = overall_rows st inwards)"

text \<open>The totals of a DC key as the specification words them: the sum of \<open>qty\<close> over all
  Inward (Outward) records of the journal with that trimmed key.\<close>

definition inward_total :: "state \<Rightarrow> string \<Rightarrow> real" where
  "inward_total st k = sum_list (map qty (filter (\<lambda>r. dc_key r = k) (inward_table st)))"

definition outward_total :: "state \<Rightarrow> string \<Rightarrow> real" where
  "outward_total st k = sum_list (map qty (filter (\<lambda>r. dc_key r = k) (outward_table st)))"



section \<open>Library functions\<close>

text \<open>
  What the routes take from Python and its libraries. \<open>int(s)\<close>, \<open>float(s)\<close> and
  \<open>datetime.strptime(s, "%Y-%m-%d").date()\<close> are parameters of the model: each returns
  \<open>None\<close> where the Python function raises \<open>ValueError\<close>. \<open>writer_opens_file\<close> says
  whether \<open>pd.ExcelWriter(path, mode="w")\<close> opens the file, and so empties it, when the
  writer is constructed (pandas 1.2 and later) or only when it is closed (earlier
  releases).
\<close>

record pylib =
  py_int :: "string \<Rightarrow> int option"
  py_float :: "string \<Rightarrow> real option"
  strptime_ymd :: "string \<Rightarrow> date option"
  writer_opens_file :: bool

datatype error = BadRequestKeyError string | ValueError | OverflowError

datatype response = Redirect string | Page | Failed error

type_synonym form = "string \<rightharpoonup> string"

definition path_join :: "string \<Rightarrow> string \<Rightarrow> string" where
  \<comment> \<open>\<open>os.path.join(a, b)\<close> on POSIX, for a relative \<open>b\<close>.\<close>
  "path_join a b = (if a = [] \<or> last a = CHR ''/'' then a @ b else a @ ''/'' @ b)"

definition sqlite_integer :: "int \<Rightarrow> bool" where
  \<comment> \<open>The integers an SQLite INTEGER column stores; the driver raises \<open>OverflowError\<close> on
      any other.\<close>
  "sqlite_integer n = (- (2 ^ 63) \<le> n \<and> n < 2 ^ 63)"

definition next_id :: "'a movement_scheme list \<Rightarrow> int" where
  \<comment> \<open>The primary key SQLite gives a new row: 1 in an empty table, else one more than
      the largest key in use.\<close>
  "next_id tbl = (case map mov_id tbl of [] \<Rightarrow> 1 | x # xs \<Rightarrow> fold max xs x + 1)"

definition next_customer_pk :: "customer list \<Rightarrow> int" where
  "next_customer_pk tbl = (case map customer_pk tbl of [] \<Rightarrow> 1 | x # xs \<Rightarrow> fold max xs x + 1)"

definition next_item_pk :: "item list \<Rightarrow> int" where
  "next_item_pk tbl = (case map item_pk tbl of [] \<Rightarrow> 1 | x # xs \<Rightarrow> fold max xs x + 1)"


section \<open>Excel append (erp\_app.py and streamlit\_erp.py)\<close>

definition month_filename_for :: "date \<Rightarrow> string \<Rightarrow> string" where
  \<comment> \<open>\<open>os.path.join(export_dir, f"{date_obj.year}-{date_obj.month:02d}.xlsx")\<close>; in
      erp\_app.py the folder is the global \<open>EXPORT_DIR\<close>.\<close>
  "month_filename_for date_obj export_dir =
     path_join export_dir
       (show_nat (year date_obj) @ ''-'' @ zfill 2 (show_nat (month date_obj)) @ ''.xlsx'')"

definition other_sheet_of :: "string \<Rightarrow> string" where
  \<comment> \<open>\<open>"Inward" if sheet_name == "Outward" else "Outward"\<close>\<close>
  "other_sheet_of sheet_name = (if sheet_name = ''Outward'' then ''Inward'' else ''Outward'')"

definition append_row_to_sheet ::
    "bool \<Rightarrow> (string \<rightharpoonup> workbook) \<Rightarrow> string \<Rightarrow> string \<Rightarrow> xrow \<Rightarrow> (string \<rightharpoonup> workbook)" where
  \<comment> \<open>erp\_app.py. \<open>df\<close> is read before the writer is constructed. The other sheet is read
      after it: when the writer has opened the file, the file exists and is empty, the
      read raises and \<open>except Exception: pass\<close> writes nothing back.\<close>
  "append_row_to_sheet opens fs month_file sheet_name row_dict =
     (let df = (case fs month_file of
                  None \<Rightarrow> [row_dict]
                | Some wb \<Rightarrow>
                    (case wb sheet_name of
                       None \<Rightarrow> [row_dict]
                     | Some existing \<Rightarrow> existing @ [row_dict]));
          on_disk = (if opens then None else fs month_file);
          other_sheet = other_sheet_of sheet_name;
          writer = (case on_disk of
                      None \<Rightarrow> Map.empty
                    | Some wb \<Rightarrow>
                        (case wb other_sheet of
                           None \<Rightarrow> Map.empty
                         | Some other_df \<Rightarrow> [other_sheet \<mapsto> other_df]))
      in fs(month_file \<mapsto> writer(sheet_name \<mapsto> df)))"

definition append_row_to_month_file ::
    "(string \<rightharpoonup> workbook) \<Rightarrow> string \<Rightarrow> date \<Rightarrow> string \<Rightarrow> xrow \<Rightarrow>
     (string \<rightharpoonup> workbook) \<times> string" where
  \<comment> \<open>streamlit\_erp.py: all sheets are read, the row is appended to the target sheet (a
      sheet with no rows is replaced), the other sheet is added empty when it is missing,
      and all sheets are written back.\<close>
  "append_row_to_month_file fs export_dir date_obj sheet_name row =
     (let filepath = month_filename_for date_obj export_dir;
          sheets = (case fs filepath of None \<Rightarrow> Map.empty | Some wb \<Rightarrow> wb);
          sheets1 = (case sheets sheet_name of
                       None \<Rightarrow> sheets(sheet_name \<mapsto> [row])
                     | Some df \<Rightarrow>
                         if df \<noteq> [] then sheets(sheet_name \<mapsto> df @ [row])
                         else sheets(sheet_name \<mapsto> [row]));
          other = other_sheet_of sheet_name;
          sheets2 = (if sheets1 other = None then sheets1(other \<mapsto> []) else sheets1)
      in (fs(filepath \<mapsto> sheets2), filepath))"


section \<open>Routes that write (erp\_app.py)\<close>

definition date_str :: "string \<Rightarrow> form \<Rightarrow> string" where
  \<comment> \<open>\<open>request.form.get("entry_date") or datetime.utcnow().strftime("%Y-%m-%d")\<close>;
      \<open>today\<close> is the formatted current date.\<close>
  "date_str today f = (case f ''entry_date'' of None \<Rightarrow> today | Some s \<Rightarrow> if s = [] then today else s)"

definition form_int :: "pylib \<Rightarrow> form \<Rightarrow> string \<Rightarrow> error + int" where
  \<comment> \<open>\<open>int(request.form[name])\<close>\<close>
  "form_int lib f name =
     (case f name of
        None \<Rightarrow> Inl (BadRequestKeyError name)
      | Some s \<Rightarrow> (case py_int lib s of None \<Rightarrow> Inl ValueError | Some n \<Rightarrow> Inr n))"

definition form_float :: "pylib \<Rightarrow> form \<Rightarrow> string \<Rightarrow> real option" where
  \<comment> \<open>\<open>float(request.form.get(name) or 0)\<close>; \<open>None\<close> for \<open>ValueError\<close>.\<close>
  "form_float lib f name =
     (case f name of None \<Rightarrow> Some 0 | Some s \<Rightarrow> if s = [] then Some 0 else py_float lib s)"

definition cell_of :: "string option \<Rightarrow> cell" where
  "cell_of v = (case v of None \<Rightarrow> Blank | Some s \<Rightarrow> Str s)"

definition master_cells :: "state \<Rightarrow> int \<Rightarrow> int \<Rightarrow> xrow" where
  \<comment> \<open>The four cells of an export row that come from the master tables; each is the
      empty string when the customer or the item is not found.\<close>
  "master_cells st cid iid =
     (let cust = get_customer st cid; it = get_item st iid
      in [(''customer_name'', (case cust of None \<Rightarrow> Str [] | Some c \<Rightarrow> Str (customer_name c))),
          (''customer_gst'', (case cust of None \<Rightarrow> Str [] | Some c \<Rightarrow> cell_of (gst_no c))),
          (''item_name'', (case it of None \<Rightarrow> Str [] | Some i \<Rightarrow> Str (item_name i))),
          (''hsn_code'', (case it of None \<Rightarrow> Str [] | Some i \<Rightarrow> cell_of (hsn_code i)))])"

definition inward_post :: "pylib \<Rightarrow> string \<Rightarrow> form \<Rightarrow> state \<Rightarrow> response \<times> state" where
  \<comment> \<open>\<open>inward()\<close> on a POST request. An exception leaves the function before
      \<open>db.session.add\<close>: the state is the one before the request.\<close>
  "inward_post lib today f st =
     (case strptime_ymd lib (date_str today f) of
        None \<Rightarrow> (Failed ValueError, st)
      | Some d \<Rightarrow>
     (case form_int lib f ''customer_id'' of
        Inl e \<Rightarrow> (Failed e, st)
      | Inr cid \<Rightarrow>
     (case form_int lib f ''item_id'' of
        Inl e \<Rightarrow> (Failed e, st)
      | Inr iid \<Rightarrow>
     (let dc = f ''dc_no_cust'' in
      case form_float lib f ''qty'' of
        None \<Rightarrow> (Failed ValueError, st)
      | Some q \<Rightarrow>
     (case form_float lib f ''rate'' of
        None \<Rightarrow> (Failed ValueError, st)
      | Some r \<Rightarrow>
     (let a = q * r;
          new_record = \<lparr>mov_id = next_id (inward_table st), entry_date = d, customer_id = cid,
                    item_id = iid, dc_no_cust = dc, qty = q, rate = r, amt = a\<rparr>
      in if \<not> (sqlite_integer cid \<and> sqlite_integer iid) then (Failed OverflowError, st)
         else
           (let st1 = st\<lparr>inward_table := inward_table st @ [new_record]\<rparr>;
                month_file = month_filename_for d (EXPORT_DIR st1);
                row = [(''entry_date'', Str (strftime_ymd d))] @ master_cells st1 cid iid @
                      [(''dc_no_cust'', cell_of dc), (''qty'', Num q), (''rate'', Num r),
                       (''amt'', Num a)]
            in (Redirect ''inward'',
                st1\<lparr>files := append_row_to_sheet (writer_opens_file lib) (files st1)
                                month_file ''Inward'' row\<rparr>))))))))"

definition outward_post :: "pylib \<Rightarrow> string \<Rightarrow> form \<Rightarrow> state \<Rightarrow> response \<times> state" where
  \<comment> \<open>\<open>outward()\<close> on a POST request.\<close>
  "outward_post lib today f st =
     (case strptime_ymd lib (date_str today f) of
        None \<Rightarrow> (Failed ValueError, st)
      | Some d \<Rightarrow>
     (case form_int lib f ''customer_id'' of
        Inl e \<Rightarrow> (Failed e, st)
      | Inr cid \<Rightarrow>
     (case form_int lib f ''item_id'' of
        Inl e \<Rightarrow> (Failed e, st)
      | Inr iid \<Rightarrow>
     (let dc = f ''dc_no_cust''; dc_unique = f ''dc_unique'' in
      case form_float lib f ''qty'' of
        None \<Rightarrow> (Failed ValueError, st)
      | Some q \<Rightarrow>
     (let new_record = \<lparr>mov_id = next_id (outward_table st), entry_date = d, customer_id = cid,
                    item_id = iid, dc_no_cust = dc, qty = q,
                    dc_unique_no_noncust = dc_unique\<rparr>
      in if \<not> (sqlite_integer cid \<and> sqlite_integer iid) then (Failed OverflowError, st)
         else
           (let st1 = st\<lparr>outward_table := outward_table st @ [new_record]\<rparr>;
                month_file = month_filename_for d (EXPORT_DIR st1);
                row = [(''entry_date'', Str (strftime_ymd d))] @ master_cells st1 cid iid @
                      [(''dc_no_cust'', cell_of dc), (''dc_unique_no_noncust'', cell_of dc_unique),
                       (''qty'', Num q)]
            in (Redirect ''outward'',
                st1\<lparr>files := append_row_to_sheet (writer_opens_file lib) (files st1)
                                month_file ''Outward'' row\<rparr>)))))))"

definition master_post :: "form \<Rightarrow> state \<Rightarrow> response \<times> state" where
  \<comment> \<open>\<open>master()\<close> on a POST request: a customer or an item is added.\<close>
  "master_post f st =
     (if f ''mode'' = Some ''add_customer'' then
        (case f ''name'' of
           None \<Rightarrow> (Failed (BadRequestKeyError ''name''), st)
         | Some n \<Rightarrow>
             (Redirect ''master'',
              st\<lparr>customer_table := customer_table st @
                   [\<lparr>customer_pk = next_customer_pk (customer_table st), customer_name = n,
                     gst_no = f ''gst_no'', address = f ''address'', mobile = f ''mobile'',
                     email = f ''email''\<rparr>]\<rparr>))
      else if f ''mode'' = Some ''add_item'' then
        (case f ''item_name'' of
           None \<Rightarrow> (Failed (BadRequestKeyError ''item_name''), st)
         | Some n \<Rightarrow>
             (Redirect ''master'',
              st\<lparr>item_table := item_table st @
                   [\<lparr>item_pk = next_item_pk (item_table st), item_name = n,
                     hsn_code = f ''hsn'', material = f ''material''\<rparr>]\<rparr>))
      else (Redirect ''master'', st))"

definition master_get :: "pylib \<Rightarrow> form \<Rightarrow> state \<Rightarrow> response \<times> state" where
  \<comment> \<open>\<open>master()\<close> on a GET request: the delete actions of the query string \<open>args\<close>.\<close>
  "master_get lib args st =
     (let del_type = args ''del''; target = args ''id'';
          given = (case target of None \<Rightarrow> False | Some s \<Rightarrow> s \<noteq> [])
      in if del_type = Some ''cust'' \<and> given then
           (case py_int lib (or_empty target) of
              None \<Rightarrow> (Failed ValueError, st)
            | Some n \<Rightarrow>
                (Redirect ''master'',
                 st\<lparr>customer_table := filter (\<lambda>c. customer_pk c \<noteq> n) (customer_table st)\<rparr>))
         else if del_type = Some ''item'' \<and> given then
           (case py_int lib (or_empty target) of
              None \<Rightarrow> (Failed ValueError, st)
            | Some n \<Rightarrow>
                (Redirect ''master'',
                 st\<lparr>item_table := filter (\<lambda>i. item_pk i \<noteq> n) (item_table st)\<rparr>))
         else (Page, st))"

definition settings_post :: "form \<Rightarrow> state \<Rightarrow> response \<times> state" where
  \<comment> \<open>\<open>settings()\<close> on a POST request: a non-empty trimmed path replaces \<open>EXPORT_DIR\<close>.\<close>
  "settings_post f st =
     (let new_path = strip (case f ''export_dir'' of None \<Rightarrow> [] | Some s \<Rightarrow> s)
      in if new_path \<noteq> [] then (Page, st\<lparr>EXPORT_DIR := new_path\<rparr>) else (Page, st))"

text \<open>The requests of the application. Every request that is not listed below only reads
  the state (\<open>Other\<close>).\<close>

datatype request =
    InwardPost form
  | OutwardPost form
  | MasterPost form
  | MasterGet form
  | SettingsPost form
  | Other

fun handle :: "pylib \<Rightarrow> string \<Rightarrow> request \<Rightarrow> state \<Rightarrow> response \<times> state" where
  "handle lib today (InwardPost f) st = inward_post lib today f st"
| "handle lib today (OutwardPost f) st = outward_post lib today f st"
| "handle lib today (MasterPost f) st = master_post f st"
| "handle lib today (MasterGet args) st = master_get lib args st"
| "handle lib today (SettingsPost f) st = settings_post f st"
| "handle lib today Other st = (Page, st)"

fun run :: "pylib \<Rightarrow> (string \<times> request) list \<Rightarrow> state \<Rightarrow> state" where
  \<comment> \<open>A sequence of requests, each with the date of its day.\<close>
  "run lib [] st = st"
| "run lib ((today, req) # reqs) st = run lib reqs (snd (handle lib today req st))"

section \<open>Words of the specification and an example journal\<close>

definition blank_dc :: "string option \<Rightarrow> bool" where
  "blank_dc v = (case v of None \<Rightarrow> True | Some s \<Rightarrow> list_all py_isspace s)"

definition ascii_lower :: "char \<Rightarrow> char" where
  "ascii_lower c = (if of_char c \<in> {65 .. 90 :: nat} then char_of (of_char c + 32 :: nat) else c)"

definition differ_only_in_case :: "string \<Rightarrow> string \<Rightarrow> bool" where
  "differ_only_in_case a b = (a \<noteq> b \<and> map ascii_lower a = map ascii_lower b)"

definition matches :: "int option \<Rightarrow> int \<Rightarrow> bool" where
  "matches f v = (case f of None \<Rightarrow> True | Some x \<Rightarrow> x = 0 \<or> v = x)"

definition in1 :: inward where
  "in1 = \<lparr>mov_id = 1, entry_date = (2024, 1, 5), customer_id = 1, item_id = 1,
          dc_no_cust = Some '' DC1 '', qty = 10, rate = 5, amt = 50\<rparr>"

definition in2 :: inward where
  "in2 = \<lparr>mov_id = 2, entry_date = (2024, 1, 5), customer_id = 2, item_id = 1,
          dc_no_cust = Some ''DC1'', qty = 5, rate = 1, amt = 5\<rparr>"

definition in3 :: inward where
  "in3 = \<lparr>mov_id = 3, entry_date = (2024, 2, 1), customer_id = 1, item_id = 2,
          dc_no_cust = Some ''  '', qty = 7, rate = 2, amt = 14\<rparr>"

definition out1 :: outward where
  "out1 = \<lparr>mov_id = 1, entry_date = (2024, 1, 9), customer_id = 1, item_id = 1,
           dc_no_cust = Some ''DC1'', qty = 6, dc_unique_no_noncust = Some ''OUT-1''\<rparr>"

definition demo_state :: state where
  "demo_state =
     \<lparr>customer_table = [\<lparr>customer_pk = 1, customer_name = ''Acme'', gst_no = Some ''GST1'',
                          address = None, mobile = None, email = None\<rparr>],
      item_table = [\<lparr>item_pk = 1, item_name = ''Bolt'', hsn_code = Some ''7318'',
                      material = None\<rparr>],
      inward_table = [in1, in2, in3],
      outward_table = [out1],
      EXPORT_DIR = ''./exports'',
      files = Map.empty\<rparr>"



text \<open>The monthly files as the specification reads them: the rows of a table of an
  archive, none when the archive or the table is absent.\<close>

definition has_sheet :: "(string \<rightharpoonup> workbook) \<Rightarrow> string \<Rightarrow> string \<Rightarrow> bool" where
  "has_sheet fs path s = (case fs path of None \<Rightarrow> False | Some wb \<Rightarrow> wb s \<noteq> None)"

definition sheet_rows :: "(string \<rightharpoonup> workbook) \<Rightarrow> string \<Rightarrow> string \<Rightarrow> xrow list" where
  "sheet_rows fs path s =
     (case fs path of
        None \<Rightarrow> []
      | Some wb \<Rightarrow> (case wb s of None \<Rightarrow> [] | Some rows \<Rightarrow> rows))"

text \<open>The fields of an Inward (Outward) form that the route accepts: the parsed entry
  date, customer id, item id, quantity and rate; \<open>None\<close> when the route raises.\<close>

definition inward_fields :: "pylib \<Rightarrow> string \<Rightarrow> form \<Rightarrow> (date \<times> int \<times> int \<times> real \<times> real) option" where
  "inward_fields lib today f =
     (case (strptime_ymd lib (date_str today f), form_int lib f ''customer_id'',
            form_int lib f ''item_id'', form_float lib f ''qty'', form_float lib f ''rate'') of
        (Some d, Inr cid, Inr iid, Some q, Some r) \<Rightarrow>
          if sqlite_integer cid \<and> sqlite_integer iid then Some (d, cid, iid, q, r) else None
      | _ \<Rightarrow> None)"

definition outward_fields :: "pylib \<Rightarrow> string \<Rightarrow> form \<Rightarrow> (date \<times> int \<times> int \<times> real) option" where
  "outward_fields lib today f =
     (case (strptime_ymd lib (date_str today f), form_int lib f ''customer_id'',
            form_int lib f ''item_id'', form_float lib f ''qty'') of
        (Some d, Inr cid, Inr iid, Some q) \<Rightarrow>
          if sqlite_integer cid \<and> sqlite_integer iid then Some (d, cid, iid, q) else None
      | _ \<Rightarrow> None)"

definition blank_field :: "string option \<Rightarrow> bool" where
  \<comment> \<open>A form field that is absent or empty.\<close>
  "blank_field v = (v = None \<or> v = Some [])"

text \<open>Example library functions: \<open>int\<close> and \<open>float\<close> on plain decimal numerals with an
  optional sign, \<open>strptime\<close> on dates written \<open>YYYY-MM-DD\<close>. On these strings they return
  what Python returns.\<close>

definition digit_of :: "char \<Rightarrow> nat option" where
  "digit_of c = (let n = (of_char c :: nat) in if 48 \<le> n \<and> n \<le> 57 then Some (n - 48) else None)"

fun dec_nat_acc :: "nat \<Rightarrow> string \<Rightarrow> nat option" where
  "dec_nat_acc a [] = Some a"
| "dec_nat_acc a (c # cs) =
     (case digit_of c of None \<Rightarrow> None | Some d \<Rightarrow> dec_nat_acc (10 * a + d) cs)"

definition dec_nat :: "string \<Rightarrow> nat option" where
  "dec_nat s = (if s = [] then None else dec_nat_acc 0 s)"

definition dec_int :: "string \<Rightarrow> int option" where
  "dec_int s =
     (case s of
        [] \<Rightarrow> None
      | c # cs \<Rightarrow>
          if c = CHR ''-'' then map_option (\<lambda>n. - int n) (dec_nat cs)
          else if c = CHR ''+'' then map_option int (dec_nat cs)
          else map_option int (dec_nat s))"

definition dec_float :: "string \<Rightarrow> real option" where
  "dec_float s = map_option real_of_int (dec_int s)"

definition days_in_month :: "nat \<Rightarrow> nat \<Rightarrow> nat" where
  "days_in_month y m =
     (if m = 2 then (if y mod 4 = 0 \<and> (y mod 100 \<noteq> 0 \<or> y mod 400 = 0) then 29 else 28)
      else if m = 4 \<or> m = 6 \<or> m = 9 \<or> m = 11 then 30 else 31)"

definition iso_date :: "string \<Rightarrow> date option" where
  "iso_date s =
     (if length s = 10 \<and> s ! 4 = CHR ''-'' \<and> s ! 7 = CHR ''-'' then
        (case (dec_nat (take 4 s), dec_nat (take 2 (drop 5 s)), dec_nat (drop 8 s)) of
           (Some y, Some m, Some d) \<Rightarrow>
             if 1 \<le> y \<and> 1 \<le> m \<and> m \<le> 12 \<and> 1 \<le> d \<and> d \<le> days_in_month y m
             then Some (y, m, d) else None
         | _ \<Rightarrow> None)
      else None)"

definition demo_lib :: "bool \<Rightarrow> pylib" where
  "demo_lib opens =
     \<lparr>py_int = dec_int, py_float = dec_float, strptime_ymd = iso_date,
      writer_opens_file = opens\<rparr>"

definition empty_state :: state where
  "empty_state =
     \<lparr>customer_table = [], item_table = [], inward_table = [], outward_table = [],
      EXPORT_DIR = ''./exports'', files = Map.empty\<rparr>"

definition form_unknown_negative :: form where
  \<comment> \<open>An Inward form that names a customer and an item no master record has, with a
      negative quantity.\<close>
  "form_unknown_negative =
     [''entry_date'' \<mapsto> ''2024-03-01'', ''customer_id'' \<mapsto> ''99'', ''item_id'' \<mapsto> ''7'',
      ''qty'' \<mapsto> ''-5'', ''rate'' \<mapsto> ''2'']"

definition form_10_by_5 :: form where
  "form_10_by_5 =
     [''entry_date'' \<mapsto> ''2024-03-01'', ''customer_id'' \<mapsto> ''1'', ''item_id'' \<mapsto> ''1'',
      ''dc_no_cust'' \<mapsto> ''DC7'', ''qty'' \<mapsto> ''10'', ''rate'' \<mapsto> ''5'']"

definition form_no_rate :: form where
  "form_no_rate =
     [''entry_date'' \<mapsto> ''2024-03-01'', ''customer_id'' \<mapsto> ''1'', ''item_id'' \<mapsto> ''1'',
      ''qty'' \<mapsto> ''4'', ''rate'' \<mapsto> '''']"

definition form_out_6 :: form where
  "form_out_6 =
     [''entry_date'' \<mapsto> ''2024-03-02'', ''customer_id'' \<mapsto> ''1'', ''item_id'' \<mapsto> ''1'',
      ''dc_no_cust'' \<mapsto> ''DC7'', ''dc_unique'' \<mapsto> ''OUT-9'', ''qty'' \<mapsto> ''6'']"

definition xrow1 :: xrow where
  "xrow1 = [(''entry_date'', Str ''2024-03-01''), (''qty'', Num 10)]"

definition xrow2 :: xrow where
  "xrow2 = [(''entry_date'', Str ''2024-03-02''), (''qty'', Num 6)]"

definition march_inward_only :: "string \<rightharpoonup> workbook" where
  \<comment> \<open>An export folder whose March archive holds an Inward table of one row and no
      Outward table.\<close>
  "march_inward_only = [''./exports/2024-03.xlsx'' \<mapsto> [''Inward'' \<mapsto> [xrow1]]]"

section \<open>Properties of the reconciliation\<close>

lemma or_zero_id: "or_zero x = x"
  by (simp add: or_zero_def)

lemma filter_dc_key_none:
  "k \<notin> dc_key ` set xs \<Longrightarrow> filter (\<lambda>r. dc_key r = k) xs = []"
  by (auto simp: filter_empty_conv)

lemma add_inward_apply:
  "add_inward m r k =
     (if dc_key r = k \<and> k \<noteq> []
      then Some ((setdefault m k)\<lparr>dc_inward := dc_inward (setdefault m k) + qty r\<rparr>)
      else m k)"
  by (auto simp: add_inward_def Let_def or_zero_def)

lemma add_outward_apply:
  "add_outward m r k =
     (if dc_key r = k \<and> k \<noteq> []
      then Some ((setdefault m k)\<lparr>dc_outward := dc_outward (setdefault m k) + qty r\<rparr>)
      else m k)"
  by (auto simp: add_outward_def Let_def or_zero_def)

lemma foldl_add_inward_apply:
  "foldl add_inward m rs k =
     (if k \<noteq> [] \<and> k \<in> dc_key ` set rs
      then Some ((setdefault m k)\<lparr>dc_inward :=
             dc_inward (setdefault m k) + sum_list (map qty (filter (\<lambda>r. dc_key r = k) rs))\<rparr>)
      else m k)"
proof (induction rs arbitrary: m)
  case Nil
  show ?case by simp
next
  case (Cons r rs)
  let ?m = "add_inward m r"
  let ?S = "\<lambda>xs. sum_list (map qty (filter (\<lambda>r. dc_key r = k) xs))"
  have a: "?m k =
      (if dc_key r = k \<and> k \<noteq> []
       then Some ((setdefault m k)\<lparr>dc_inward := dc_inward (setdefault m k) + qty r\<rparr>)
       else m k)"
    by (rule add_inward_apply)
  have "foldl add_inward m (r # rs) k = foldl add_inward ?m rs k"
    by simp
  also have "\<dots> =
      (if k \<noteq> [] \<and> k \<in> dc_key ` set rs
       then Some ((setdefault ?m k)\<lparr>dc_inward := dc_inward (setdefault ?m k) + ?S rs\<rparr>)
       else ?m k)"
    by (rule Cons.IH)
  also have "\<dots> =
      (if k \<noteq> [] \<and> k \<in> dc_key ` set (r # rs)
       then Some ((setdefault m k)\<lparr>dc_inward := dc_inward (setdefault m k) + ?S (r # rs)\<rparr>)
       else m k)"
    by (auto simp: setdefault_def add_inward_apply add_outward_apply filter_dc_key_none)
  finally show ?case .
qed

lemma foldl_add_outward_apply:
  "foldl add_outward m rs k =
     (if k \<noteq> [] \<and> k \<in> dc_key ` set rs
      then Some ((setdefault m k)\<lparr>dc_outward :=
             dc_outward (setdefault m k) + sum_list (map qty (filter (\<lambda>r. dc_key r = k) rs))\<rparr>)
      else m k)"
proof (induction rs arbitrary: m)
  case Nil
  show ?case by simp
next
  case (Cons r rs)
  let ?m = "add_outward m r"
  let ?S = "\<lambda>xs. sum_list (map qty (filter (\<lambda>r. dc_key r = k) xs))"
  have a: "?m k =
      (if dc_key r = k \<and> k \<noteq> []
       then Some ((setdefault m k)\<lparr>dc_outward := dc_outward (setdefault m k) + qty r\<rparr>)
       else m k)"
    by (rule add_outward_apply)
  have "foldl add_outward m (r # rs) k = foldl add_outward ?m rs k"
    by simp
  also have "\<dots> =
      (if k \<noteq> [] \<and> k \<in> dc_key ` set rs
       then Some ((setdefault ?m k)\<lparr>dc_outward := dc_outward (setdefault ?m k) + ?S rs\<rparr>)
       else ?m k)"
    by (rule Cons.IH)
  also have "\<dots> =
      (if k \<noteq> [] \<and> k \<in> dc_key ` set (r # rs)
       then Some ((setdefault m k)\<lparr>dc_outward := dc_outward (setdefault m k) + ?S (r # rs)\<rparr>)
       else m k)"
    by (auto simp: setdefault_def add_inward_apply add_outward_apply filter_dc_key_none)
  finally show ?case .
qed

lemma build_dc_map_apply:
  "build_dc_map ins outs k =
     (if k \<noteq> [] \<and> (k \<in> dc_key ` set ins \<or> k \<in> dc_key ` set outs)
      then Some \<lparr>dc_inward = sum_list (map qty (filter (\<lambda>r. dc_key r = k) ins)),
                 dc_outward = sum_list (map qty (filter (\<lambda>r. dc_key r = k) outs))\<rparr>
      else None)"
  unfolding build_dc_map_def
  by (auto simp: foldl_add_outward_apply foldl_add_inward_apply setdefault_def filter_dc_key_none)


text \<open>\<open>Inward.query.all()\<close> and \<open>Outward.query.all()\<close> name no order; \<open>dc_map\<close> is the
  same for every order in which the rows are returned.\<close>

lemma sum_qty_filter_mset:
  "sum_list (map qty (filter P xs)) = sum_mset (image_mset qty (filter_mset P (mset xs)))"
  by (metis mset_filter mset_map sum_mset_sum_list)

lemma build_dc_map_any_order:
  assumes "mset ins' = mset ins" and "mset outs' = mset outs"
  shows "build_dc_map ins' outs' = build_dc_map ins outs"
proof
  fix k
  from assms have "set ins' = set ins" "set outs' = set outs"
    by (auto dest: mset_eq_setD)
  with assms show "build_dc_map ins' outs' k = build_dc_map ins outs k"
    by (simp add: build_dc_map_apply sum_qty_filter_mset)
qed

lemma set_filter_by: "set (filter_by cf itf tbl) \<subseteq> set tbl"
  by (auto simp: filter_by_def Let_def split: option.splits)

lemma order_by_set: "order_by_entry_date_desc xs res \<Longrightarrow> set res = set xs"
  by (auto simp: order_by_entry_date_desc_def dest: mset_eq_setD)

lemma build_dc_map_state:
  assumes "k \<noteq> []" and "k \<in> dc_key ` set (inward_table st)"
  shows "build_dc_map (inward_table st) (outward_table st) k =
           Some \<lparr>dc_inward = inward_total st k, dc_outward = outward_total st k\<rparr>"
  using assms by (simp add: build_dc_map_apply inward_total_def outward_total_def)

text \<open>
  Claim C1. For every journal state, every pair of display filters and every row of the
  overall view with a non-empty trimmed DC key \<open>k\<close>: \<open>dc_map\<close> holds for \<open>k\<close> the sum of
  \<open>qty\<close> over all Inward records and over all Outward records of the whole journal with
  that key, the row shows the Outward total as dispatched and Inward total minus Outward
  total as pending. The totals do not mention the filters.
\<close>

theorem pending_is_inward_minus_outward:
  assumes "overall st cust_filter item_filter inwards outwards rows"
    and "r \<in> set rows" and "row_dc_no_cust r = k" and "k \<noteq> []"
  shows "build_dc_map (inward_table st) (outward_table st) k =
           Some \<lparr>dc_inward = inward_total st k, dc_outward = outward_total st k\<rparr> \<and>
         qty_dispatch r = outward_total st k \<and>
         pending_qty r = inward_total st k - outward_total st k"
proof -
  let ?m = "build_dc_map (inward_table st) (outward_table st)"
  from assms(1) have res: "order_by_entry_date_desc (filter_by cust_filter item_filter (inward_table st)) inwards"
    and rows: "rows = map (overall_row_of st ?m) inwards"
    by (simp_all add: overall_def overall_rows_def)
  from assms(2) rows obtain inw where inw: "inw \<in> set inwards" and r: "r = overall_row_of st ?m inw"
    by auto
  from inw order_by_set [OF res] set_filter_by have mem: "inw \<in> set (inward_table st)"
    by blast
  from r assms(3) have key: "dc_key inw = k"
    by (simp add: overall_row_of_def Let_def)
  with mem have "k \<in> dc_key ` set (inward_table st)"
    by blast
  with assms(4) have m: "?m k = Some \<lparr>dc_inward = inward_total st k, dc_outward = outward_total st k\<rparr>"
    by (rule build_dc_map_state)
  with r key show ?thesis
    by (simp add: overall_row_of_def Let_def)
qed

lemma demo_overall_cust1:
  "overall demo_state (Some 1) None [in3, in1] [out1] (overall_rows demo_state [in3, in1])"
  by (simp add: overall_def order_by_entry_date_desc_def filter_by_def demo_state_def
      in1_def in2_def in3_def out1_def)

lemma demo_key_in1: "dc_key in1 = ''DC1''"
  by (simp add: dc_key_def in1_def or_empty_def strip_def py_isspace_def)

lemma demo_key_in2: "dc_key in2 = ''DC1''"
  by (simp add: dc_key_def in2_def or_empty_def strip_def py_isspace_def)

lemma demo_key_in3: "dc_key in3 = []"
  by (simp add: dc_key_def in3_def or_empty_def strip_def py_isspace_def)

lemma demo_key_out1: "dc_key out1 = ''DC1''"
  by (simp add: dc_key_def out1_def or_empty_def strip_def py_isspace_def)

theorem pending_is_inward_minus_outward_witness:
  "overall demo_state (Some 1) None [in3, in1] [out1] (overall_rows demo_state [in3, in1]) \<and>
   row_dc_no_cust (overall_rows demo_state [in3, in1] ! 1) = ''DC1'' \<and>
   inward_total demo_state ''DC1'' = 15 \<and> outward_total demo_state ''DC1'' = 6 \<and>
   qty_dispatch (overall_rows demo_state [in3, in1] ! 1) = 6 \<and>
   pending_qty (overall_rows demo_state [in3, in1] ! 1) = 9"
proof -
  let ?rows = "overall_rows demo_state [in3, in1]"
  have mem: "?rows ! 1 \<in> set ?rows"
    by (simp add: overall_rows_def Let_def)
  have key: "row_dc_no_cust (?rows ! 1) = ''DC1''"
    by (simp add: overall_rows_def overall_row_of_def Let_def demo_key_in1)
  have it: "inward_total demo_state ''DC1'' = 15"
    by (simp add: inward_total_def demo_state_def demo_key_in1 demo_key_in2 demo_key_in3)
      (simp add: in1_def in2_def)
  have ot: "outward_total demo_state ''DC1'' = 6"
    by (simp add: outward_total_def demo_state_def demo_key_out1) (simp add: out1_def)
  from pending_is_inward_minus_outward [OF demo_overall_cust1 mem key] demo_overall_cust1 key it ot
  show ?thesis by simp
qed

lemma strip_Nil_iff: "strip s = [] \<longleftrightarrow> list_all py_isspace s"
proof
  assume "strip s = []"
  then have "\<forall>x\<in>set (dropWhile py_isspace s). py_isspace x"
    by (simp add: strip_def)
  then have "dropWhile py_isspace s = []"
    by (metis hd_dropWhile list.set_sel(1))
  then show "list_all py_isspace s"
    by (simp add: list_all_iff)
next
  assume "list_all py_isspace s"
  then show "strip s = []"
    by (auto simp: strip_def list_all_iff dest: set_dropWhileD)
qed

lemma blank_dc_key: "blank_dc (dc_no_cust r) \<longleftrightarrow> dc_key r = []"
  by (cases "dc_no_cust r") (simp_all add: blank_dc_def dc_key_def or_empty_def strip_Nil_iff)

lemma add_inward_blank: "dc_key r = [] \<Longrightarrow> add_inward m r = m"
  by (simp add: add_inward_def)

lemma foldl_add_inward_remove1:
  "dc_key r = [] \<Longrightarrow> foldl add_inward m (remove1 r xs) = foldl add_inward m xs"
  by (induction xs arbitrary: m) (auto simp: add_inward_blank)

lemma build_dc_map_blank_key: "build_dc_map ins outs [] = None"
  by (simp add: build_dc_map_apply)

text \<open>
  Claim C4. In every journal state, an Inward record whose \<open>dc_no_cust\<close> is missing, empty or
  whitespace only contributes to no entry of \<open>dc_map\<close> (the map is the one built without the
  record), and its row of the overall view shows dispatched 0 and pending equal to the
  record's own \<open>qty\<close>.
\<close>

theorem blank_dc_is_untracked:
  assumes "overall st cust_filter item_filter inwards outwards rows"
    and "i < length inwards" and "blank_dc (dc_no_cust (inwards ! i))"
  shows "build_dc_map (remove1 (inwards ! i) (inward_table st)) (outward_table st) =
           build_dc_map (inward_table st) (outward_table st) \<and>
         qty_dispatch (rows ! i) = 0 \<and>
         pending_qty (rows ! i) = qty (inwards ! i)"
proof -
  from assms(3) have key: "dc_key (inwards ! i) = []"
    by (simp add: blank_dc_key)
  from assms(1) have rows: "rows = overall_rows st inwards"
    by (simp add: overall_def)
  from key have "build_dc_map (remove1 (inwards ! i) (inward_table st)) (outward_table st) =
      build_dc_map (inward_table st) (outward_table st)"
    by (simp add: build_dc_map_def foldl_add_inward_remove1)
  moreover from assms(2) key have "qty_dispatch (rows ! i) = 0 \<and> pending_qty (rows ! i) = qty (inwards ! i)"
    by (simp add: rows overall_rows_def overall_row_of_def Let_def build_dc_map_blank_key or_zero_id)
  ultimately show ?thesis by simp
qed

theorem blank_dc_is_untracked_witness:
  "overall demo_state (Some 1) None [in3, in1] [out1] (overall_rows demo_state [in3, in1]) \<and>
   blank_dc (dc_no_cust ([in3, in1] ! 0)) \<and>
   build_dc_map [in1, in2] [out1] = build_dc_map [in1, in2, in3] [out1] \<and>
   qty_dispatch (overall_rows demo_state [in3, in1] ! 0) = 0 \<and>
   pending_qty (overall_rows demo_state [in3, in1] ! 0) = 7"
proof -
  have b: "blank_dc (dc_no_cust ([in3, in1] ! 0))"
    by (simp add: blank_dc_def in3_def py_isspace_def)
  have len: "0 < length [in3, in1]"
    by simp
  have ne: "in3 \<noteq> in1" "in3 \<noteq> in2"
    by (simp_all add: in1_def in2_def in3_def)
  from blank_dc_is_untracked [OF demo_overall_cust1 len b] demo_overall_cust1 b ne
  show ?thesis
    by (simp add: demo_state_def) (simp add: in3_def)
qed

lemma isspace_lower_fix: "py_isspace c \<Longrightarrow> ascii_lower c = c"
  by (auto simp: py_isspace_def ascii_lower_def)

lemma isspace_lower: "py_isspace (ascii_lower c) = py_isspace c"
  by (auto simp: py_isspace_def ascii_lower_def)

lemma takeWhile_isspace_lower:
  assumes "map ascii_lower a = map ascii_lower b"
  shows "takeWhile py_isspace a = takeWhile py_isspace b"
proof -
  have eq: "map ascii_lower (takeWhile py_isspace s) = takeWhile py_isspace (map ascii_lower s)"
    for s
    by (simp add: takeWhile_map comp_def isspace_lower)
  have idl: "map ascii_lower (takeWhile py_isspace s) = takeWhile py_isspace s" for s
    by (rule map_idI) (auto dest: set_takeWhileD simp: isspace_lower_fix)
  have "takeWhile py_isspace a = map ascii_lower (takeWhile py_isspace a)"
    by (rule idl [symmetric])
  also have "\<dots> = takeWhile py_isspace (map ascii_lower a)"
    by (rule eq)
  also have "\<dots> = takeWhile py_isspace (map ascii_lower b)"
    by (simp only: assms)
  also have "\<dots> = map ascii_lower (takeWhile py_isspace b)"
    by (rule eq [symmetric])
  also have "\<dots> = takeWhile py_isspace b"
    by (rule idl)
  finally show ?thesis .
qed

lemma dropWhile_isspace_lower:
  "map ascii_lower (dropWhile py_isspace s) = dropWhile py_isspace (map ascii_lower s)"
  by (simp add: dropWhile_map comp_def isspace_lower)

lemma strip_decomp:
  "s = takeWhile py_isspace s @ strip s @
       rev (takeWhile py_isspace (rev (dropWhile py_isspace s)))"
proof -
  let ?t = "dropWhile py_isspace s"
  have "rev ?t = takeWhile py_isspace (rev ?t) @ dropWhile py_isspace (rev ?t)"
    by simp
  then have "?t = rev (dropWhile py_isspace (rev ?t)) @ rev (takeWhile py_isspace (rev ?t))"
    by (metis rev_append rev_rev_ident)
  then have "?t = strip s @ rev (takeWhile py_isspace (rev ?t))"
    by (simp add: strip_def)
  moreover have "s = takeWhile py_isspace s @ ?t"
    by simp
  ultimately show ?thesis by simp
qed

lemma strip_case_sensitive:
  assumes "differ_only_in_case a b"
  shows "strip a \<noteq> strip b"
proof
  assume eq: "strip a = strip b"
  from assms have ne: "a \<noteq> b" and low: "map ascii_lower a = map ascii_lower b"
    by (simp_all add: differ_only_in_case_def)
  from low have pre: "takeWhile py_isspace a = takeWhile py_isspace b"
    by (rule takeWhile_isspace_lower)
  from low have "map ascii_lower (rev (dropWhile py_isspace a)) =
      map ascii_lower (rev (dropWhile py_isspace b))"
    by (simp add: rev_map [symmetric] dropWhile_isspace_lower)
  then have post: "takeWhile py_isspace (rev (dropWhile py_isspace a)) =
      takeWhile py_isspace (rev (dropWhile py_isspace b))"
    by (rule takeWhile_isspace_lower)
  have "a = takeWhile py_isspace a @ strip a @
      rev (takeWhile py_isspace (rev (dropWhile py_isspace a)))"
    by (rule strip_decomp)
  also have "\<dots> = takeWhile py_isspace b @ strip b @
      rev (takeWhile py_isspace (rev (dropWhile py_isspace b)))"
    by (simp only: eq pre post)
  also have "\<dots> = b"
    by (rule strip_decomp [symmetric])
  finally show False
    using ne by simp
qed

lemma dropWhile_all_append:
  "list_all P w \<Longrightarrow> dropWhile P (w @ s) = dropWhile P s"
  by (induction w) simp_all

lemma strip_leading: "list_all py_isspace w \<Longrightarrow> strip (w @ s) = strip s"
  by (simp add: strip_def dropWhile_all_append)

lemma strip_trailing:
  assumes "list_all py_isspace w"
  shows "strip (s @ w) = strip s"
proof (cases "list_all py_isspace s")
  case True
  with assms have "list_all py_isspace (s @ w)" by simp
  with True show ?thesis by (simp only: strip_Nil_iff [symmetric])
next
  case False
  then obtain x where x: "x \<in> set s" "\<not> py_isspace x"
    by (auto simp: list_all_iff)
  then have "dropWhile py_isspace (s @ w) = dropWhile py_isspace s @ w"
    by (rule dropWhile_append1)
  moreover from assms have "list_all py_isspace (rev w)"
    by (simp add: list_all_iff)
  ultimately show ?thesis
    by (simp add: strip_def dropWhile_all_append)
qed

lemma strip_surrounding:
  "list_all py_isspace w1 \<Longrightarrow> list_all py_isspace w2 \<Longrightarrow> strip (w1 @ s @ w2) = strip s"
  by (simp add: strip_leading strip_trailing)

text \<open>
  Claim C6. The key under which a record is accumulated is its trimmed \<open>dc_no_cust\<close>,
  compared as it is written. When the DC numbers of an Inward and an Outward record
  differ only by whitespace around the same text, the two keys are equal and the entry of
  that key holds both quantities; when they differ in letter case, the keys differ and
  each record has an entry of its own.
\<close>

theorem dc_key_trimmed_case_sensitive:
  fixes inw :: inward and out :: outward
  assumes "dc_no_cust inw = Some a" and "dc_no_cust out = Some b"
  shows "(list_all py_isspace (w1 @ w2 @ w3 @ w4) \<and> a = w1 @ s @ w2 \<and> b = w3 @ s @ w4 \<longrightarrow>
            dc_key inw = dc_key out \<and>
            (dc_key inw \<noteq> [] \<longrightarrow>
               build_dc_map [inw] [out] (dc_key inw) =
                 Some \<lparr>dc_inward = qty inw, dc_outward = qty out\<rparr>)) \<and>
         (differ_only_in_case a b \<longrightarrow>
            dc_key inw \<noteq> dc_key out \<and>
            (dc_key inw \<noteq> [] \<longrightarrow>
               build_dc_map [inw] [out] (dc_key inw) =
                 Some \<lparr>dc_inward = qty inw, dc_outward = 0\<rparr>) \<and>
            (dc_key out \<noteq> [] \<longrightarrow>
               build_dc_map [inw] [out] (dc_key out) =
                 Some \<lparr>dc_inward = 0, dc_outward = qty out\<rparr>))"
proof -
  have keys: "dc_key inw = strip a" "dc_key out = strip b"
    using assms by (simp_all add: dc_key_def or_empty_def)
  have same: "dc_key inw = dc_key out"
    if "list_all py_isspace (w1 @ w2 @ w3 @ w4)" "a = w1 @ s @ w2" "b = w3 @ s @ w4"
    using that by (simp add: keys strip_surrounding)
  have diff: "dc_key inw \<noteq> dc_key out" if "differ_only_in_case a b"
    using that by (simp add: keys strip_case_sensitive)
  show ?thesis
    using same diff by (auto simp: build_dc_map_apply)
qed

theorem dc_key_trimmed_case_sensitive_witness:
  "dc_key in1 = dc_key out1 \<and>
   build_dc_map [in1] [out1] ''DC1'' = Some \<lparr>dc_inward = 10, dc_outward = 6\<rparr> \<and>
   differ_only_in_case ''dc1'' ''DC1'' \<and>
   dc_key (in1\<lparr>dc_no_cust := Some ''dc1''\<rparr>) \<noteq> dc_key out1 \<and>
   build_dc_map [in1\<lparr>dc_no_cust := Some ''dc1''\<rparr>] [out1] ''dc1'' =
     Some \<lparr>dc_inward = 10, dc_outward = 0\<rparr> \<and>
   build_dc_map [in1\<lparr>dc_no_cust := Some ''dc1''\<rparr>] [out1] ''DC1'' =
     Some \<lparr>dc_inward = 0, dc_outward = 6\<rparr>"
proof -
  let ?in1' = "in1\<lparr>dc_no_cust := Some ''dc1''\<rparr>"
  have a: "dc_no_cust in1 = Some '' DC1 ''" and b: "dc_no_cust out1 = Some ''DC1''"
    by (simp_all add: in1_def out1_def)
  have ws: "list_all py_isspace ('' '' @ '' '' @ [] @ []) \<and>
      '' DC1 '' = '' '' @ ''DC1'' @ '' '' \<and> ''DC1'' = [] @ ''DC1'' @ []"
    by (simp add: py_isspace_def)
  have c: "dc_no_cust ?in1' = Some ''dc1''"
    by simp
  have d: "differ_only_in_case ''dc1'' ''DC1''"
    by (simp add: differ_only_in_case_def ascii_lower_def char_of_def bit_0)
  have k: "dc_key ?in1' = ''dc1''"
    by (simp add: dc_key_def or_empty_def strip_def py_isspace_def)
  have q: "qty in1 = 10" "qty out1 = 6" "qty ?in1' = 10"
    by (simp_all add: in1_def out1_def)
  from dc_key_trimmed_case_sensitive [OF a b, of "'' ''" "'' ''" "[]" "[]" "''DC1''"] ws
  have same: "dc_key in1 = dc_key out1 \<and>
      (dc_key in1 \<noteq> [] \<longrightarrow>
         build_dc_map [in1] [out1] (dc_key in1) =
           Some \<lparr>dc_inward = qty in1, dc_outward = qty out1\<rparr>)"
    by blast
  from dc_key_trimmed_case_sensitive [OF c b, of "[]" "[]" "[]" "[]" "[]"] d
  have diff: "dc_key ?in1' \<noteq> dc_key out1 \<and>
      (dc_key ?in1' \<noteq> [] \<longrightarrow>
         build_dc_map [?in1'] [out1] (dc_key ?in1') =
           Some \<lparr>dc_inward = qty ?in1', dc_outward = 0\<rparr>) \<and>
      (dc_key out1 \<noteq> [] \<longrightarrow>
         build_dc_map [?in1'] [out1] (dc_key out1) =
           Some \<lparr>dc_inward = 0, dc_outward = qty out1\<rparr>)"
    by blast
  from same have s1: "dc_key in1 = dc_key out1"
    and s2: "build_dc_map [in1] [out1] ''DC1'' = Some \<lparr>dc_inward = 10, dc_outward = 6\<rparr>"
    by (simp_all add: demo_key_in1 demo_key_out1 q)
  from diff have d1: "dc_key ?in1' \<noteq> dc_key out1"
    and d2: "build_dc_map [?in1'] [out1] ''dc1'' = Some \<lparr>dc_inward = 10, dc_outward = 0\<rparr>"
    and d3: "build_dc_map [?in1'] [out1] ''DC1'' = Some \<lparr>dc_inward = 0, dc_outward = 6\<rparr>"
    by (simp_all only: k demo_key_out1 q) simp_all
  from s1 s2 d d1 d2 d3 show ?thesis
    by (intro conjI)
qed


section \<open>Properties of the queries of the overall view\<close>

lemma order_by_entry_date_desc_total:
  "order_by_entry_date_desc xs (rev (sort_key entry_date xs))"
proof -
  have "sorted (map entry_date (sort_key entry_date xs))"
    by (rule sorted_sort_key)
  then have "sorted_wrt (\<lambda>a b. entry_date a \<le> entry_date b) (sort_key entry_date xs)"
    by (simp add: sorted_map)
  then show ?thesis
    by (simp add: order_by_entry_date_desc_def sorted_wrt_rev)
qed

lemma mset_filter_by:
  "mset (filter_by cf itf tbl) =
     filter_mset (\<lambda>r. matches cf (customer_id r) \<and> matches itf (item_id r)) (mset tbl)"
  by (auto simp: filter_by_def matches_def Let_def filter_filter_mset split: option.splits
      intro!: filter_mset_cong)

text \<open>
  Claim C7, as the code has it. For every journal state and every pair of filters the two
  queries of \<open>overall\<close> have a result, and in every result the Inward records and the
  Outward records are each ordered latest entry date first; the rows of the view follow
  the order of the Inward records. The query names no second sort key: the order of
  records with the same entry date is not fixed.
\<close>

theorem query_newest_first:
  "(\<exists>inwards outwards rows. overall st cust_filter item_filter inwards outwards rows) \<and>
   (\<forall>inwards outwards rows.
      overall st cust_filter item_filter inwards outwards rows \<longrightarrow>
        sorted_wrt (\<lambda>a b. entry_date b \<le> entry_date a) inwards \<and>
        sorted_wrt (\<lambda>a b. entry_date b \<le> entry_date a) outwards \<and>
        map row_date rows = map (\<lambda>r. strftime_ymd (entry_date r)) inwards)"
proof (intro conjI allI impI)
  let ?ins = "rev (sort_key entry_date (filter_by cust_filter item_filter (inward_table st)))"
  let ?outs = "rev (sort_key entry_date (filter_by cust_filter item_filter (outward_table st)))"
  have "overall st cust_filter item_filter ?ins ?outs (overall_rows st ?ins)"
    by (simp add: overall_def order_by_entry_date_desc_total)
  then show "\<exists>inwards outwards rows. overall st cust_filter item_filter inwards outwards rows"
    by blast
next
  fix inwards outwards rows
  assume "overall st cust_filter item_filter inwards outwards rows"
  then show "sorted_wrt (\<lambda>a b. entry_date b \<le> entry_date a) inwards"
    by (simp add: overall_def order_by_entry_date_desc_def)
next
  fix inwards outwards rows
  assume "overall st cust_filter item_filter inwards outwards rows"
  then show "sorted_wrt (\<lambda>a b. entry_date b \<le> entry_date a) outwards"
    by (simp add: overall_def order_by_entry_date_desc_def)
next
  fix inwards outwards rows
  assume "overall st cust_filter item_filter inwards outwards rows"
  then show "map row_date rows = map (\<lambda>r. strftime_ymd (entry_date r)) inwards"
    by (simp add: overall_def overall_rows_def overall_row_of_def Let_def)
qed

lemma demo_overall_item1_asc:
  "overall demo_state None (Some 1) [in1, in2] [out1] (overall_rows demo_state [in1, in2])"
  by (simp add: overall_def order_by_entry_date_desc_def filter_by_def demo_state_def
      in1_def in2_def in3_def out1_def)

lemma demo_overall_item1_desc:
  "overall demo_state None (Some 1) [in2, in1] [out1] (overall_rows demo_state [in2, in1])"
  by (simp add: overall_def order_by_entry_date_desc_def filter_by_def demo_state_def
      in1_def in2_def in3_def out1_def)

theorem query_newest_first_witness:
  "overall demo_state (Some 1) None [in3, in1] [out1] (overall_rows demo_state [in3, in1]) \<and>
   sorted_wrt (\<lambda>a b. entry_date b \<le> entry_date a) [in3, in1] \<and>
   map row_date (overall_rows demo_state [in3, in1]) = [''2024-02-01'', ''2024-01-05'']"
proof -
  from query_newest_first [of demo_state "Some 1" None] demo_overall_cust1
  have "sorted_wrt (\<lambda>a b. entry_date b \<le> entry_date a) [in3, in1] \<and>
      map row_date (overall_rows demo_state [in3, in1]) =
        map (\<lambda>r. strftime_ymd (entry_date r)) [in3, in1]"
    by blast
  moreover have "map (\<lambda>r. strftime_ymd (entry_date r)) [in3, in1] =
      [''2024-02-01'', ''2024-01-05'']"
    by (simp add: in1_def in3_def strftime_ymd_def zfill_def year_def month_def day_def)
  ultimately show ?thesis
    using demo_overall_cust1 by simp
qed

text \<open>
  Against claim C7 as stated: for one journal state and one filter, two Inward records of
  the same entry date may be returned in either order of their ids.
\<close>

theorem ties_not_broken_by_id_counterexample:
  "overall demo_state None (Some 1) [in1, in2] [out1] (overall_rows demo_state [in1, in2]) \<and>
   overall demo_state None (Some 1) [in2, in1] [out1] (overall_rows demo_state [in2, in1]) \<and>
   entry_date in1 = entry_date in2 \<and> mov_id in1 < mov_id in2"
  using demo_overall_item1_asc demo_overall_item1_desc
  by (simp add: in1_def in2_def)

text \<open>
  Claim C8, as the code has it. Each filter is optional and applies on its own; a result
  holds exactly the records of the table that match every filter that is given and not
  zero, and for two given non-zero filters exactly the records with that \<open>customer_id\<close>
  and that \<open>item_id\<close>.
\<close>

theorem filters_conjunctive_when_nonzero:
  assumes "overall st cust_filter item_filter inwards outwards rows"
  shows "mset inwards =
           filter_mset (\<lambda>r. matches cust_filter (customer_id r) \<and> matches item_filter (item_id r))
             (mset (inward_table st)) \<and>
         mset outwards =
           filter_mset (\<lambda>r. matches cust_filter (customer_id r) \<and> matches item_filter (item_id r))
             (mset (outward_table st)) \<and>
         (\<forall>c i. cust_filter = Some c \<and> item_filter = Some i \<and> c \<noteq> 0 \<and> i \<noteq> 0 \<longrightarrow>
            set inwards = {r \<in> set (inward_table st). customer_id r = c \<and> item_id r = i} \<and>
            set outwards = {r \<in> set (outward_table st). customer_id r = c \<and> item_id r = i})"
proof -
  from assms have i: "mset inwards = mset (filter_by cust_filter item_filter (inward_table st))"
    and o: "mset outwards = mset (filter_by cust_filter item_filter (outward_table st))"
    by (simp_all add: overall_def order_by_entry_date_desc_def)
  from i have si: "set inwards = set (filter_by cust_filter item_filter (inward_table st))"
    by (rule mset_eq_setD)
  from o have so: "set outwards = set (filter_by cust_filter item_filter (outward_table st))"
    by (rule mset_eq_setD)
  have "\<forall>c i. cust_filter = Some c \<and> item_filter = Some i \<and> c \<noteq> 0 \<and> i \<noteq> 0 \<longrightarrow>
      set inwards = {r \<in> set (inward_table st). customer_id r = c \<and> item_id r = i} \<and>
      set outwards = {r \<in> set (outward_table st). customer_id r = c \<and> item_id r = i}"
    by (auto simp: si so filter_by_def)
  with i o show ?thesis
    by (simp add: mset_filter_by)
qed

theorem filters_conjunctive_when_nonzero_witness:
  "overall demo_state (Some 1) (Some 1) [in1] [out1] (overall_rows demo_state [in1]) \<and>
   set [in1] = {r \<in> set (inward_table demo_state). customer_id r = 1 \<and> item_id r = 1}"
proof -
  have h: "overall demo_state (Some 1) (Some 1) [in1] [out1] (overall_rows demo_state [in1])"
    by (simp add: overall_def order_by_entry_date_desc_def filter_by_def demo_state_def
        in1_def in2_def in3_def out1_def)
  from filters_conjunctive_when_nonzero [OF h] h show ?thesis
    by simp
qed

text \<open>
  Against claim C8 as stated: with both filters given, \<open>customer_id = 0\<close> and
  \<open>item_id = 1\<close>, the result holds records whose \<open>customer_id\<close> is not 0.
\<close>

theorem zero_filter_not_matched_counterexample:
  "overall demo_state (Some 0) (Some 1) [in1, in2] [out1] (overall_rows demo_state [in1, in2]) \<and>
   customer_id in1 \<noteq> 0 \<and> customer_id in2 \<noteq> 0"
  by (simp add: overall_def order_by_entry_date_desc_def filter_by_def demo_state_def
      in1_def in2_def in3_def out1_def)

text \<open>
  Claim C10. A customer filter of 0, or an item filter of 0, gives exactly the results and
  rows of the same request without that filter.
\<close>

theorem zero_filter_is_no_filter:
  "overall st (Some 0) item_filter = overall st None item_filter \<and>
   overall st cust_filter (Some 0) = overall st cust_filter None"
  by (simp add: fun_eq_iff overall_def filter_by_def)

theorem zero_filter_is_no_filter_witness:
  "overall demo_state (Some 0) (Some 1) [in1, in2] [out1] (overall_rows demo_state [in1, in2]) \<and>
   overall demo_state None (Some 1) [in1, in2] [out1] (overall_rows demo_state [in1, in2]) \<and>
   overall demo_state None (Some 0) [in3, in1, in2] [out1] (overall_rows demo_state [in3, in1, in2]) \<and>
   overall demo_state None None [in3, in1, in2] [out1] (overall_rows demo_state [in3, in1, in2])"
proof -
  have all: "overall demo_state None None [in3, in1, in2] [out1]
      (overall_rows demo_state [in3, in1, in2])"
    by (simp add: overall_def order_by_entry_date_desc_def filter_by_def demo_state_def
        in1_def in2_def in3_def out1_def)
  from zero_filter_is_no_filter [of demo_state "Some 1" None] zero_filter_is_no_filter [of demo_state None None]
    demo_overall_item1_asc all
  show ?thesis
    by simp
qed

section \<open>Properties of the routes that write\<close>

lemma demo_fields_unknown_negative:
  "inward_fields (demo_lib opens) today form_unknown_negative = Some ((2024, 3, 1), 99, 7, - 5, 2)"
  by (simp add: inward_fields_def demo_lib_def form_unknown_negative_def date_str_def form_int_def
      form_float_def dec_float_def dec_int_def dec_nat_def digit_of_def iso_date_def
      days_in_month_def sqlite_integer_def)

lemma demo_fields_10_by_5:
  "inward_fields (demo_lib opens) today form_10_by_5 = Some ((2024, 3, 1), 1, 1, 10, 5)"
  by (simp add: inward_fields_def demo_lib_def form_10_by_5_def date_str_def form_int_def
      form_float_def dec_float_def dec_int_def dec_nat_def digit_of_def iso_date_def
      days_in_month_def sqlite_integer_def)

lemma demo_fields_no_rate:
  "inward_fields (demo_lib opens) today form_no_rate = Some ((2024, 3, 1), 1, 1, 4, 0)"
  by (simp add: inward_fields_def demo_lib_def form_no_rate_def date_str_def form_int_def
      form_float_def dec_float_def dec_int_def dec_nat_def digit_of_def iso_date_def
      days_in_month_def sqlite_integer_def)

lemma inward_post_accepted:
  assumes "inward_fields lib today f = Some (d, cid, iid, q, r)"
  shows "fst (inward_post lib today f st) = Redirect ''inward'' \<and>
         inward_table (snd (inward_post lib today f st)) =
           inward_table st @
             [\<lparr>mov_id = next_id (inward_table st), entry_date = d, customer_id = cid,
               item_id = iid, dc_no_cust = f ''dc_no_cust'', qty = q, rate = r, amt = q * r\<rparr>] \<and>
         outward_table (snd (inward_post lib today f st)) = outward_table st \<and>
         customer_table (snd (inward_post lib today f st)) = customer_table st \<and>
         item_table (snd (inward_post lib today f st)) = item_table st"
  using assms
  by (auto simp: inward_fields_def inward_post_def Let_def
      split: option.splits sum.splits if_splits)

lemma inward_post_rejected:
  assumes "inward_fields lib today f = None"
  shows "\<exists>e. inward_post lib today f st = (Failed e, st)"
  using assms
  by (auto simp: inward_fields_def inward_post_def Let_def
      split: option.splits sum.splits if_splits)

lemma outward_post_accepted:
  assumes "outward_fields lib today f = Some (d, cid, iid, q)"
  shows "fst (outward_post lib today f st) = Redirect ''outward'' \<and>
         outward_table (snd (outward_post lib today f st)) =
           outward_table st @
             [\<lparr>mov_id = next_id (outward_table st), entry_date = d, customer_id = cid,
               item_id = iid, dc_no_cust = f ''dc_no_cust'', qty = q,
               dc_unique_no_noncust = f ''dc_unique''\<rparr>] \<and>
         inward_table (snd (outward_post lib today f st)) = inward_table st \<and>
         customer_table (snd (outward_post lib today f st)) = customer_table st \<and>
         item_table (snd (outward_post lib today f st)) = item_table st"
  using assms
  by (auto simp: outward_fields_def outward_post_def Let_def
      split: option.splits sum.splits if_splits)

lemma outward_post_rejected:
  assumes "outward_fields lib today f = None"
  shows "\<exists>e. outward_post lib today f st = (Failed e, st)"
  using assms
  by (auto simp: outward_fields_def outward_post_def Let_def
      split: option.splits sum.splits if_splits)

text \<open>
  Claim C3, as the code has it. An append fails, and leaves the whole state as it was,
  exactly when the form is not accepted: the entry date does not parse, \<open>customer_id\<close> or
  \<open>item_id\<close> is missing, is not an integer or does not fit an SQLite INTEGER, or \<open>qty\<close> (for
  Inward also \<open>rate\<close>) is not a float. Every other form inserts the record under the next
  id: the master tables and the sign of \<open>qty\<close> are not consulted.
\<close>

theorem append_fails_only_on_unparsable_form:
  "(case inward_fields lib today f of
      None \<Rightarrow> (\<exists>e. inward_post lib today f st = (Failed e, st))
    | Some (d, cid, iid, q, r) \<Rightarrow>
        fst (inward_post lib today f st) = Redirect ''inward'' \<and>
        inward_table (snd (inward_post lib today f st)) =
          inward_table st @
            [\<lparr>mov_id = next_id (inward_table st), entry_date = d, customer_id = cid,
              item_id = iid, dc_no_cust = f ''dc_no_cust'', qty = q, rate = r, amt = q * r\<rparr>] \<and>
        outward_table (snd (inward_post lib today f st)) = outward_table st) \<and>
   (case outward_fields lib today f of
      None \<Rightarrow> (\<exists>e. outward_post lib today f st = (Failed e, st))
    | Some (d, cid, iid, q) \<Rightarrow>
        fst (outward_post lib today f st) = Redirect ''outward'' \<and>
        outward_table (snd (outward_post lib today f st)) =
          outward_table st @
            [\<lparr>mov_id = next_id (outward_table st), entry_date = d, customer_id = cid,
              item_id = iid, dc_no_cust = f ''dc_no_cust'', qty = q,
              dc_unique_no_noncust = f ''dc_unique''\<rparr>] \<and>
        inward_table (snd (outward_post lib today f st)) = inward_table st)"
proof (rule conjI)
  show "case inward_fields lib today f of
      None \<Rightarrow> (\<exists>e. inward_post lib today f st = (Failed e, st))
    | Some (d, cid, iid, q, r) \<Rightarrow>
        fst (inward_post lib today f st) = Redirect ''inward'' \<and>
        inward_table (snd (inward_post lib today f st)) =
          inward_table st @
            [\<lparr>mov_id = next_id (inward_table st), entry_date = d, customer_id = cid,
              item_id = iid, dc_no_cust = f ''dc_no_cust'', qty = q, rate = r, amt = q * r\<rparr>] \<and>
        outward_table (snd (inward_post lib today f st)) = outward_table st"
  proof (cases "inward_fields lib today f")
    case None
    then show ?thesis by (simp add: inward_post_rejected)
  next
    case (Some p)
    obtain d cid iid q r where p: "p = (d, cid, iid, q, r)"
      by (cases p) auto
    from Some p inward_post_accepted [of lib today f d cid iid q r st] show ?thesis
      by simp
  qed
next
  show "case outward_fields lib today f of
      None \<Rightarrow> (\<exists>e. outward_post lib today f st = (Failed e, st))
    | Some (d, cid, iid, q) \<Rightarrow>
        fst (outward_post lib today f st) = Redirect ''outward'' \<and>
        outward_table (snd (outward_post lib today f st)) =
          outward_table st @
            [\<lparr>mov_id = next_id (outward_table st), entry_date = d, customer_id = cid,
              item_id = iid, dc_no_cust = f ''dc_no_cust'', qty = q,
              dc_unique_no_noncust = f ''dc_unique''\<rparr>] \<and>
        inward_table (snd (outward_post lib today f st)) = inward_table st"
  proof (cases "outward_fields lib today f")
    case None
    then show ?thesis by (simp add: outward_post_rejected)
  next
    case (Some p)
    obtain d cid iid q where p: "p = (d, cid, iid, q)"
      by (cases p) auto
    from Some p outward_post_accepted [of lib today f d cid iid q st] show ?thesis
      by simp
  qed
qed


lemma demo_next_id: "next_id [in1, in2, in3] = 4"
  by (simp add: next_id_def in1_def in2_def in3_def)

theorem append_fails_only_on_unparsable_form_witness:
  "inward_fields (demo_lib True) ''2024-03-05'' form_10_by_5 = Some ((2024, 3, 1), 1, 1, 10, 5) \<and>
   fst (inward_post (demo_lib True) ''2024-03-05'' form_10_by_5 demo_state) = Redirect ''inward'' \<and>
   inward_table (snd (inward_post (demo_lib True) ''2024-03-05'' form_10_by_5 demo_state)) =
     [in1, in2, in3,
      \<lparr>mov_id = 4, entry_date = (2024, 3, 1), customer_id = 1, item_id = 1,
        dc_no_cust = Some ''DC7'', qty = 10, rate = 5, amt = 50\<rparr>] \<and>
   inward_fields (demo_lib True) ''2024-03-05'' Map.empty = None \<and>
   (\<exists>e. inward_post (demo_lib True) ''2024-03-05'' Map.empty demo_state = (Failed e, demo_state))"
proof -
  have none: "inward_fields (demo_lib True) ''2024-03-05'' Map.empty = None"
    by (simp add: inward_fields_def form_int_def split: option.splits)
  have dc: "form_10_by_5 ''dc_no_cust'' = Some ''DC7''"
    by (simp add: form_10_by_5_def)
  have tbl: "inward_table demo_state = [in1, in2, in3]"
    by (simp add: demo_state_def)
  from append_fails_only_on_unparsable_form
         [of "demo_lib True" "''2024-03-05''" form_10_by_5 demo_state]
       append_fails_only_on_unparsable_form
         [of "demo_lib True" "''2024-03-05''" Map.empty demo_state]
  show ?thesis
    by (simp add: demo_fields_10_by_5 none demo_next_id dc tbl)
qed

text \<open>
  Against claim C3 as stated: an Inward form whose \<open>customer_id\<close> and \<open>item_id\<close> resolve to
  no master record and whose \<open>qty\<close> is negative is accepted, and its record is stored.
\<close>

theorem unresolved_ids_and_negative_qty_counterexample:
  "get_customer empty_state 99 = None \<and> get_item empty_state 7 = None \<and>
   fst (inward_post (demo_lib True) ''2024-03-05'' form_unknown_negative empty_state) =
     Redirect ''inward'' \<and>
   inward_table (snd (inward_post (demo_lib True) ''2024-03-05'' form_unknown_negative empty_state)) =
     [\<lparr>mov_id = 1, entry_date = (2024, 3, 1), customer_id = 99, item_id = 7,
       dc_no_cust = None, qty = - 5, rate = 2, amt = - 10\<rparr>]"
proof -
  have "get_customer empty_state 99 = None" "get_item empty_state 7 = None"
    by (simp_all add: get_customer_def get_item_def empty_state_def)
  moreover have "form_unknown_negative ''dc_no_cust'' = None"
    by (simp add: form_unknown_negative_def)
  moreover have "next_id (inward_table empty_state) = 1" "inward_table empty_state = []"
    by (simp_all add: next_id_def empty_state_def)
  moreover note inward_post_accepted
    [OF demo_fields_unknown_negative [of True "''2024-03-05''"], of empty_state]
  ultimately show ?thesis
    by simp
qed

lemma inward_post_prefix:
  "\<exists>more. inward_table (snd (inward_post lib today f st)) = inward_table st @ more"
  by (auto simp: inward_post_def Let_def split: option.splits sum.splits)

lemma outward_post_inward_table:
  "inward_table (snd (outward_post lib today f st)) = inward_table st"
  by (auto simp: outward_post_def Let_def split: option.splits sum.splits)

lemma master_post_inward_table: "inward_table (snd (master_post f st)) = inward_table st"
  by (auto simp: master_post_def split: option.splits)

lemma master_get_inward_table: "inward_table (snd (master_get lib args st)) = inward_table st"
  by (auto simp: master_get_def Let_def split: option.splits)

lemma settings_post_inward_table: "inward_table (snd (settings_post f st)) = inward_table st"
  by (simp add: settings_post_def Let_def)

lemma handle_prefix:
  "\<exists>more. inward_table (snd (handle lib today req st)) = inward_table st @ more"
  by (cases req)
    (simp_all add: inward_post_prefix outward_post_inward_table master_post_inward_table
      master_get_inward_table settings_post_inward_table)

lemma run_prefix: "\<exists>more. inward_table (run lib reqs st) = inward_table st @ more"
proof (induction reqs arbitrary: st)
  case Nil
  show ?case by simp
next
  case (Cons tr reqs)
  obtain today req where tr: "tr = (today, req)"
    by (cases tr)
  obtain m1 where m1: "inward_table (snd (handle lib today req st)) = inward_table st @ m1"
    using handle_prefix by blast
  obtain m2 where "inward_table (run lib reqs (snd (handle lib today req st))) =
      inward_table (snd (handle lib today req st)) @ m2"
    using Cons.IH by blast
  with m1 tr show ?case by simp
qed

text \<open>
  Claim C5. An accepted Inward form with quantity \<open>q\<close> and rate \<open>r\<close> stores a record whose
  \<open>amt\<close> is \<open>q * r\<close>, and after any sequence of later requests the Inward table still
  begins with the records it held, this record with its amount among them.
\<close>

theorem inward_amount_fixed_at_creation:
  assumes "inward_fields lib today f = Some (d, cid, iid, q, r)"
  shows "inward_table (snd (inward_post lib today f st)) =
           inward_table st @
             [\<lparr>mov_id = next_id (inward_table st), entry_date = d, customer_id = cid,
               item_id = iid, dc_no_cust = f ''dc_no_cust'', qty = q, rate = r, amt = q * r\<rparr>] \<and>
         (\<forall>lib' reqs. \<exists>more.
            inward_table (run lib' reqs (snd (inward_post lib today f st))) =
              inward_table st @
                [\<lparr>mov_id = next_id (inward_table st), entry_date = d, customer_id = cid,
                  item_id = iid, dc_no_cust = f ''dc_no_cust'', qty = q, rate = r,
                  amt = q * r\<rparr>] @ more)"
proof -
  let ?st' = "snd (inward_post lib today f st)"
  from assms have tbl: "inward_table ?st' =
      inward_table st @
        [\<lparr>mov_id = next_id (inward_table st), entry_date = d, customer_id = cid,
          item_id = iid, dc_no_cust = f ''dc_no_cust'', qty = q, rate = r, amt = q * r\<rparr>]"
    using inward_post_accepted by blast
  have "\<exists>more. inward_table (run lib' reqs ?st') = inward_table ?st' @ more" for lib' reqs
    by (rule run_prefix)
  with tbl show ?thesis
    by simp
qed


theorem inward_amount_fixed_at_creation_witness:
  "inward_fields (demo_lib True) ''2024-03-05'' form_10_by_5 = Some ((2024, 3, 1), 1, 1, 10, 5) \<and>
   inward_table (snd (inward_post (demo_lib True) ''2024-03-05'' form_10_by_5 demo_state)) =
     [in1, in2, in3,
      \<lparr>mov_id = 4, entry_date = (2024, 3, 1), customer_id = 1, item_id = 1,
        dc_no_cust = Some ''DC7'', qty = 10, rate = 5, amt = 50\<rparr>] \<and>
   take 4 (inward_table
     (run (demo_lib True)
        [(''2024-03-06'', OutwardPost form_out_6), (''2024-03-06'', InwardPost form_no_rate),
         (''2024-03-07'', MasterGet [''del'' \<mapsto> ''cust'', ''id'' \<mapsto> ''1''])]
        (snd (inward_post (demo_lib True) ''2024-03-05'' form_10_by_5 demo_state)))) =
     [in1, in2, in3,
      \<lparr>mov_id = 4, entry_date = (2024, 3, 1), customer_id = 1, item_id = 1,
        dc_no_cust = Some ''DC7'', qty = 10, rate = 5, amt = 50\<rparr>]"
proof -
  let ?st' = "snd (inward_post (demo_lib True) ''2024-03-05'' form_10_by_5 demo_state)"
  let ?reqs = "[(''2024-03-06'', OutwardPost form_out_6), (''2024-03-06'', InwardPost form_no_rate),
         (''2024-03-07'', MasterGet [''del'' \<mapsto> ''cust'', ''id'' \<mapsto> ''1''])]"
  let ?new = "\<lparr>mov_id = 4, entry_date = (2024, 3, 1), customer_id = 1, item_id = 1,
        dc_no_cust = Some ''DC7'', qty = 10, rate = 5, amt = 50 :: real\<rparr>"
  have dc: "form_10_by_5 ''dc_no_cust'' = Some ''DC7''"
    by (simp add: form_10_by_5_def)
  have tbl: "inward_table demo_state = [in1, in2, in3]"
    by (simp add: demo_state_def)
  note fact1 = inward_amount_fixed_at_creation
    [OF demo_fields_10_by_5 [of True "''2024-03-05''"], of demo_state]
  from fact1 have a: "inward_table ?st' = [in1, in2, in3, ?new]"
    by (simp add: dc tbl demo_next_id)
  from fact1 have "\<forall>lib' reqs. \<exists>more.
      inward_table (run lib' reqs ?st') = [in1, in2, in3, ?new] @ more"
    by (simp add: dc tbl demo_next_id)
  then have "\<exists>more.
      inward_table (run (demo_lib True) ?reqs ?st') = [in1, in2, in3, ?new] @ more"
    by (elim allE)
  then obtain more where
    "inward_table (run (demo_lib True) ?reqs ?st') = [in1, in2, in3, ?new] @ more"
    by (rule exE)
  then have "take 4 (inward_table (run (demo_lib True) ?reqs ?st')) = [in1, in2, in3, ?new]"
    by simp
  with a demo_fields_10_by_5 [of True "''2024-03-05''"] show ?thesis
    by (intro conjI)
qed

text \<open>
  Claim C9. In an Inward form whose entry date, customer id and item id are accepted, a
  \<open>qty\<close> or \<open>rate\<close> field that is absent or empty does not make the request fail: the record
  is stored with 0 for that field and with amount 0.
\<close>

theorem blank_qty_or_rate_defaults_to_zero:
  assumes "strptime_ymd lib (date_str today f) = Some d"
    and "form_int lib f ''customer_id'' = Inr cid" and "form_int lib f ''item_id'' = Inr iid"
    and "sqlite_integer cid" and "sqlite_integer iid"
  shows "(blank_field (f ''qty'') \<and> form_float lib f ''rate'' = Some r \<longrightarrow>
            fst (inward_post lib today f st) = Redirect ''inward'' \<and>
            inward_table (snd (inward_post lib today f st)) =
              inward_table st @
                [\<lparr>mov_id = next_id (inward_table st), entry_date = d, customer_id = cid,
                  item_id = iid, dc_no_cust = f ''dc_no_cust'', qty = 0, rate = r, amt = 0\<rparr>]) \<and>
         (blank_field (f ''rate'') \<and> form_float lib f ''qty'' = Some q \<longrightarrow>
            fst (inward_post lib today f st) = Redirect ''inward'' \<and>
            inward_table (snd (inward_post lib today f st)) =
              inward_table st @
                [\<lparr>mov_id = next_id (inward_table st), entry_date = d, customer_id = cid,
                  item_id = iid, dc_no_cust = f ''dc_no_cust'', qty = q, rate = 0, amt = 0\<rparr>])"
proof (intro conjI impI)
  assume h: "blank_field (f ''qty'') \<and> form_float lib f ''rate'' = Some r"
  then have "form_float lib f ''qty'' = Some 0"
    by (auto simp: blank_field_def form_float_def)
  with h assms have "inward_fields lib today f = Some (d, cid, iid, 0, r)"
    by (simp add: inward_fields_def)
  from inward_post_accepted [OF this, of st]
  show "fst (inward_post lib today f st) = Redirect ''inward''"
    and "inward_table (snd (inward_post lib today f st)) =
      inward_table st @
        [\<lparr>mov_id = next_id (inward_table st), entry_date = d, customer_id = cid,
          item_id = iid, dc_no_cust = f ''dc_no_cust'', qty = 0, rate = r, amt = 0\<rparr>]"
    by simp_all
next
  assume h: "blank_field (f ''rate'') \<and> form_float lib f ''qty'' = Some q"
  then have "form_float lib f ''rate'' = Some 0"
    by (auto simp: blank_field_def form_float_def)
  with h assms have "inward_fields lib today f = Some (d, cid, iid, q, 0)"
    by (simp add: inward_fields_def)
  from inward_post_accepted [OF this, of st]
  show "fst (inward_post lib today f st) = Redirect ''inward''"
    and "inward_table (snd (inward_post lib today f st)) =
      inward_table st @
        [\<lparr>mov_id = next_id (inward_table st), entry_date = d, customer_id = cid,
          item_id = iid, dc_no_cust = f ''dc_no_cust'', qty = q, rate = 0, amt = 0\<rparr>]"
    by simp_all
qed

theorem blank_qty_or_rate_defaults_to_zero_witness:
  "blank_field (form_no_rate ''rate'') \<and>
   form_float (demo_lib True) form_no_rate ''qty'' = Some 4 \<and>
   fst (inward_post (demo_lib True) ''2024-03-05'' form_no_rate demo_state) = Redirect ''inward'' \<and>
   inward_table (snd (inward_post (demo_lib True) ''2024-03-05'' form_no_rate demo_state)) =
     [in1, in2, in3,
      \<lparr>mov_id = 4, entry_date = (2024, 3, 1), customer_id = 1, item_id = 1,
        dc_no_cust = None, qty = 4, rate = 0, amt = 0\<rparr>]"
proof -
  have d: "strptime_ymd (demo_lib True) (date_str ''2024-03-05'' form_no_rate) = Some (2024, 3, 1)"
    by (simp add: demo_lib_def form_no_rate_def date_str_def dec_nat_def digit_of_def
        iso_date_def days_in_month_def)
  have c: "form_int (demo_lib True) form_no_rate ''customer_id'' = Inr 1"
    and i: "form_int (demo_lib True) form_no_rate ''item_id'' = Inr 1"
    by (simp_all add: demo_lib_def form_no_rate_def form_int_def dec_int_def dec_nat_def
        digit_of_def)
  have s: "sqlite_integer 1"
    by (simp add: sqlite_integer_def)
  have b: "blank_field (form_no_rate ''rate'')"
    by (simp add: blank_field_def form_no_rate_def)
  have q: "form_float (demo_lib True) form_no_rate ''qty'' = Some 4"
    by (simp add: demo_lib_def form_no_rate_def form_float_def dec_float_def dec_int_def
        dec_nat_def digit_of_def)
  have dc: "form_no_rate ''dc_no_cust'' = None"
    by (simp add: form_no_rate_def)
  have tbl: "inward_table demo_state = [in1, in2, in3]"
    by (simp add: demo_state_def)
  from blank_qty_or_rate_defaults_to_zero [OF d c i s s, where q = 4 and r = 0 and st = demo_state] b q
  show ?thesis
    by (simp add: dc tbl demo_next_id)
qed

section \<open>Properties of the Excel append\<close>

lemma month_file_sheet_rows:
  "sheet_rows (fst (append_row_to_month_file fs export_dir date_obj sheet_name row))
      (month_filename_for date_obj export_dir) s =
     (if s = sheet_name
      then sheet_rows fs (month_filename_for date_obj export_dir) sheet_name @ [row]
      else sheet_rows fs (month_filename_for date_obj export_dir) s)"
  by (auto simp: append_row_to_month_file_def sheet_rows_def Let_def split: option.splits)

lemma month_file_has_sheet:
  "has_sheet (fst (append_row_to_month_file fs export_dir date_obj sheet_name row))
      (month_filename_for date_obj export_dir) s =
     (s = sheet_name \<or> s = other_sheet_of sheet_name \<or>
      has_sheet fs (month_filename_for date_obj export_dir) s)"
  by (auto simp: append_row_to_month_file_def has_sheet_def Let_def split: option.splits)

lemma month_file_other_files:
  "p \<noteq> month_filename_for date_obj export_dir \<Longrightarrow>
     fst (append_row_to_month_file fs export_dir date_obj sheet_name row) p = fs p"
  by (simp add: append_row_to_month_file_def Let_def)

lemma other_sheet_differs [simp]:
  "other_sheet_of s \<noteq> s" "s \<noteq> other_sheet_of s"
  by (simp_all add: other_sheet_of_def)

lemma sheet_target_rows:
  "sheet_rows (append_row_to_sheet opens fs month_file sheet_name row_dict) month_file sheet_name =
     sheet_rows fs month_file sheet_name @ [row_dict]"
  by (auto simp: append_row_to_sheet_def sheet_rows_def Let_def split: option.splits)

lemma sheet_other_not_created:
  "\<not> has_sheet fs month_file (other_sheet_of sheet_name) \<Longrightarrow>
     \<not> has_sheet (append_row_to_sheet opens fs month_file sheet_name row_dict) month_file
         (other_sheet_of sheet_name)"
  by (auto simp: append_row_to_sheet_def has_sheet_def Let_def split: option.splits)

text \<open>
  What becomes of a sibling table that the archive does hold, in \<open>append_row_to_sheet\<close>:
  it is read after the writer is constructed. When the writer has opened the file by then,
  the read fails, the exception is swallowed and the table is not written back; when the
  writer opens the file only on close, the table is written back as it was.
\<close>

lemma sheet_other_lost_when_writer_opens:
  "\<not> has_sheet (append_row_to_sheet True fs month_file sheet_name row_dict) month_file
       (other_sheet_of sheet_name)"
  by (auto simp: append_row_to_sheet_def has_sheet_def Let_def split: option.splits)

lemma sheet_other_kept_when_writer_opens_late:
  "sheet_rows (append_row_to_sheet False fs month_file sheet_name row_dict) month_file
       (other_sheet_of sheet_name) =
     sheet_rows fs month_file (other_sheet_of sheet_name) \<and>
   has_sheet (append_row_to_sheet False fs month_file sheet_name row_dict) month_file
       (other_sheet_of sheet_name) =
     has_sheet fs month_file (other_sheet_of sheet_name)"
  by (auto simp: append_row_to_sheet_def has_sheet_def sheet_rows_def Let_def
      split: option.splits)

text \<open>
  Claim C2, as the code has it. \<open>append_row_to_month_file\<close> (streamlit\_erp.py) appends the
  row to the target table of the month's archive, leaves the rows of every other table as
  they were, keeps every table the archive had and adds the sibling table, empty, when it
  was missing; no other file changes. \<open>append_row_to_sheet\<close> (erp\_app.py) appends the row
  to the target table, creating the archive and the table when they are missing, and does
  not create a sibling table the archive lacks; no other file changes. Both hold whether
  the Excel writer opens the file when it is constructed or when it is closed.
\<close>

theorem projection_and_sibling_table:
  "(let path = month_filename_for date_obj export_dir;
        fs' = fst (append_row_to_month_file fs export_dir date_obj sheet_name row)
    in snd (append_row_to_month_file fs export_dir date_obj sheet_name row) = path \<and>
       sheet_rows fs' path sheet_name = sheet_rows fs path sheet_name @ [row] \<and>
       (\<forall>s. s \<noteq> sheet_name \<longrightarrow> sheet_rows fs' path s = sheet_rows fs path s) \<and>
       (\<forall>s. has_sheet fs' path s \<longleftrightarrow>
          s = sheet_name \<or> s = other_sheet_of sheet_name \<or> has_sheet fs path s) \<and>
       (\<forall>p. p \<noteq> path \<longrightarrow> fs' p = fs p)) \<and>
   (let fs' = append_row_to_sheet opens fs month_file sheet_name row
    in sheet_rows fs' month_file sheet_name = sheet_rows fs month_file sheet_name @ [row] \<and>
       has_sheet fs' month_file sheet_name \<and>
       (\<not> has_sheet fs month_file (other_sheet_of sheet_name) \<longrightarrow>
          \<not> has_sheet fs' month_file (other_sheet_of sheet_name)) \<and>
       (\<forall>p. p \<noteq> month_file \<longrightarrow> fs' p = fs p))"
proof -
  have a: "snd (append_row_to_month_file fs export_dir date_obj sheet_name row) =
      month_filename_for date_obj export_dir"
    by (simp add: append_row_to_month_file_def Let_def)
  have b: "has_sheet (append_row_to_sheet opens fs month_file sheet_name row) month_file sheet_name"
    by (simp add: append_row_to_sheet_def has_sheet_def Let_def)
  have c: "\<forall>p. p \<noteq> month_file \<longrightarrow> append_row_to_sheet opens fs month_file sheet_name row p = fs p"
    by (simp add: append_row_to_sheet_def Let_def)
  show ?thesis
    unfolding Let_def
    using a b c sheet_other_not_created [of fs month_file sheet_name opens row]
    by (simp add: month_file_sheet_rows month_file_has_sheet month_file_other_files
        sheet_target_rows)
qed

lemma demo_march: "month_filename_for (2024, 3, 2) ''./exports'' = ''./exports/2024-03.xlsx''"
  by (simp add: month_filename_for_def path_join_def year_def month_def zfill_def)

theorem projection_and_sibling_table_witness:
  "sheet_rows (fst (append_row_to_month_file march_inward_only ''./exports'' (2024, 3, 2)
      ''Outward'' xrow2)) ''./exports/2024-03.xlsx'' ''Inward'' = [xrow1] \<and>
   sheet_rows (fst (append_row_to_month_file march_inward_only ''./exports'' (2024, 3, 2)
      ''Outward'' xrow2)) ''./exports/2024-03.xlsx'' ''Outward'' = [xrow2] \<and>
   has_sheet (fst (append_row_to_month_file march_inward_only ''./exports'' (2024, 3, 2)
      ''Inward'' xrow2)) ''./exports/2024-03.xlsx'' ''Outward'' \<and>
   sheet_rows (fst (append_row_to_month_file march_inward_only ''./exports'' (2024, 3, 2)
      ''Inward'' xrow2)) ''./exports/2024-03.xlsx'' ''Outward'' = [] \<and>
   sheet_rows (append_row_to_sheet True march_inward_only ''./exports/2024-03.xlsx''
      ''Inward'' xrow2) ''./exports/2024-03.xlsx'' ''Inward'' = [xrow1, xrow2]"
proof -
  have old: "sheet_rows march_inward_only ''./exports/2024-03.xlsx'' ''Inward'' = [xrow1]"
    "sheet_rows march_inward_only ''./exports/2024-03.xlsx'' ''Outward'' = []"
    by (simp_all add: sheet_rows_def march_inward_only_def)
  from projection_and_sibling_table
      [of "(2024, 3, 2)" "''./exports''" march_inward_only "''Outward''" xrow2 True
         "''./exports/2024-03.xlsx''"]
    projection_and_sibling_table
      [of "(2024, 3, 2)" "''./exports''" march_inward_only "''Inward''" xrow2 True
         "''./exports/2024-03.xlsx''"]
  show ?thesis
    by (simp add: Let_def demo_march old other_sheet_of_def)
qed

text \<open>
  Against claim C2 as stated: an archive that holds an Inward table and no Outward table
  still has no Outward table after \<open>append_row_to_sheet\<close> has added an Inward row.
\<close>

theorem sibling_table_not_created_counterexample:
  "has_sheet march_inward_only ''./exports/2024-03.xlsx'' ''Inward'' \<and>
   \<not> has_sheet march_inward_only ''./exports/2024-03.xlsx'' ''Outward'' \<and>
   \<not> has_sheet (append_row_to_sheet True march_inward_only ''./exports/2024-03.xlsx''
        ''Inward'' xrow2) ''./exports/2024-03.xlsx'' ''Outward'' \<and>
   \<not> has_sheet (append_row_to_sheet False march_inward_only ''./exports/2024-03.xlsx''
        ''Inward'' xrow2) ''./exports/2024-03.xlsx'' ''Outward''"
  by (simp add: has_sheet_def march_inward_only_def append_row_to_sheet_def Let_def
      other_sheet_of_def)

end
